theory Spec2Isabelle
  imports Complex_Main
begin

section \<open>Python values used by the headache log\<close>

subsection \<open>Strings\<close>

text \<open>
  A Python \<^verbatim>\<open>str\<close> is a sequence of Unicode code points, so a string is a list of
  code points. The program's literals are not ASCII; they are written here by their code
  points, with the Python literal in the comment.
\<close>

type_synonym pystr = "nat list"

definition ascii :: "string \<Rightarrow> pystr" where
  "ascii s = map of_char s"

definition xiaoshi :: pystr where \<comment> \<open>the literal of "hours", U+5C0F U+65F6\<close>
  "xiaoshi = [23567, 26102]"

definition fenzhong :: pystr where \<comment> \<open>the literal of "minutes", U+5206 U+949F\<close>
  "fenzhong = [20998, 38047]"

datatype error = KeyError | ValueError | IndexError | AttributeError | TypeError
  | EmptyDataError | ParserError

text \<open>An exception ends the evaluation: the first \<open>Inl\<close> is the result.\<close>

definition bind_err :: "error + 'a \<Rightarrow> ('a \<Rightarrow> error + 'b) \<Rightarrow> error + 'b" where
  "bind_err r f = (case r of Inl e \<Rightarrow> Inl e | Inr v \<Rightarrow> f v)"

text \<open>
  The exceptions that \<^verbatim>\<open>except ValueError\<close> catches: pandas derives
  \<^verbatim>\<open>EmptyDataError\<close> and \<^verbatim>\<open>ParserError\<close> from \<^verbatim>\<open>ValueError\<close>.
\<close>

fun is_value_error :: "error \<Rightarrow> bool" where
  "is_value_error ValueError = True"
| "is_value_error EmptyDataError = True"
| "is_value_error ParserError = True"
| "is_value_error _ = False"

text \<open>\<^verbatim>\<open>str(i)\<close> and the \<^verbatim>\<open>{i}\<close> of an f-string, for an integer: decimal digits, a minus sign
  in front of a negative number.\<close>

fun digits :: "nat \<Rightarrow> pystr" where
  "digits n = (if n < 10 then [48 + n] else digits (n div 10) @ [48 + n mod 10])"

declare digits.simps [simp del]

definition str_int :: "int \<Rightarrow> pystr" where
  "str_int i = (if i < 0 then 45 # digits (nat (- i)) else digits (nat i))"

text \<open>
  \<^verbatim>\<open>int(s)\<close> for a string: blanks around the number are dropped, then an optional sign
  and decimal digits, where single underscores may stand between digits; anything else
  raises \<^verbatim>\<open>ValueError\<close>. Python also accepts the decimal digits of other scripts;
  the model reads ASCII digits only, which is what \<^verbatim>\<open>str\<close> writes.
\<close>

definition is_space :: "nat \<Rightarrow> bool" where
  "is_space c \<longleftrightarrow> (9 \<le> c \<and> c \<le> 13) \<or> (28 \<le> c \<and> c \<le> 32) \<or> c = 133 \<or> c = 160
     \<or> c = 5760 \<or> (8192 \<le> c \<and> c \<le> 8202) \<or> c = 8232 \<or> c = 8233 \<or> c = 8239
     \<or> c = 8287 \<or> c = 12288"

definition strip :: "pystr \<Rightarrow> pystr" where
  "strip s = rev (dropWhile is_space (rev (dropWhile is_space s)))"

definition is_digit :: "nat \<Rightarrow> bool" where
  "is_digit c \<longleftrightarrow> 48 \<le> c \<and> c \<le> 57"

fun digits_value :: "nat \<Rightarrow> pystr \<Rightarrow> nat option" where
  "digits_value acc [] = Some acc"
| "digits_value acc [c] = (if is_digit c then Some (acc * 10 + (c - 48)) else None)"
| "digits_value acc (c # d # ds) =
     (if is_digit c then digits_value (acc * 10 + (c - 48)) (d # ds)
      else if c = 95 \<and> is_digit d then digits_value (acc * 10 + (d - 48)) ds
      else None)"

definition parse_nat :: "pystr \<Rightarrow> nat option" where
  "parse_nat s = (case s of [] \<Rightarrow> None
     | c # cs \<Rightarrow> if is_digit c then digits_value (c - 48) cs else None)"

definition py_int :: "pystr \<Rightarrow> error + int" where
  "py_int s =
     (case strip s of
        [] \<Rightarrow> Inl ValueError
      | c # cs \<Rightarrow>
          if c = 45 then (case parse_nat cs of None \<Rightarrow> Inl ValueError | Some n \<Rightarrow> Inr (- int n))
          else if c = 43 then (case parse_nat cs of None \<Rightarrow> Inl ValueError | Some n \<Rightarrow> Inr (int n))
          else (case parse_nat (c # cs) of None \<Rightarrow> Inl ValueError | Some n \<Rightarrow> Inr (int n)))"

text \<open>
  \<^verbatim>\<open>s.split(sep)\<close>: the pieces between the occurrences of \<open>sep\<close>, found from the left
  and not overlapping; an empty separator raises \<^verbatim>\<open>ValueError\<close>. The piece being read
  is carried in \<open>cur\<close>.
\<close>

fun split_from :: "pystr \<Rightarrow> pystr \<Rightarrow> pystr \<Rightarrow> pystr list" where
  "split_from sep cur [] = [cur]"
| "split_from sep cur (c # cs) =
     (if sep \<noteq> [] \<and> take (length sep) (c # cs) = sep
      then cur # split_from sep [] (drop (length sep - 1) cs)
      else split_from sep (cur @ [c]) cs)"

definition py_split :: "pystr \<Rightarrow> pystr \<Rightarrow> error + pystr list" where
  "py_split s sep = (if sep = [] then Inl ValueError else Inr (split_from sep [] s))"

text \<open>
  \<^verbatim>\<open>s.replace(old, new)\<close>: every occurrence of \<open>old\<close>, from the left and not
  overlapping, becomes \<open>new\<close>; with an empty \<open>old\<close>, \<open>new\<close> is put before every
  character and at the end.
\<close>

fun replace_from :: "pystr \<Rightarrow> pystr \<Rightarrow> pystr \<Rightarrow> pystr" where
  "replace_from old new [] = []"
| "replace_from old new (c # cs) =
     (if take (length old) (c # cs) = old
      then new @ replace_from old new (drop (length old - 1) cs)
      else c # replace_from old new cs)"

definition py_replace :: "pystr \<Rightarrow> pystr \<Rightarrow> pystr \<Rightarrow> pystr" where
  "py_replace s old new =
     (if old = [] then new @ concat (map (\<lambda>c. c # new) s) else replace_from old new s)"

text \<open>\<^verbatim>\<open>xs[i]\<close> for a list and a non-negative literal index.\<close>

definition py_index :: "'a list \<Rightarrow> nat \<Rightarrow> error + 'a" where
  "py_index xs i = (if i < length xs then Inr (xs ! i) else Inl IndexError)"

subsection \<open>Floats\<close>

text \<open>
  A Python float is modelled by the real number it stands for: binary rounding is left
  out. On the inputs of the form, whole minutes, every float below is a whole number and
  the float operations are exact.

  \<^verbatim>\<open>divmod(x, y)\<close> is the floored quotient with the remainder; \<^verbatim>\<open>int(x)\<close> cuts the
  fraction off, towards zero.
\<close>

definition divmod_float :: "real \<Rightarrow> real \<Rightarrow> real \<times> real" where
  "divmod_float x y = (of_int \<lfloor>x / y\<rfloor>, x - of_int \<lfloor>x / y\<rfloor> * y)"

definition int_of_float :: "real \<Rightarrow> int" where
  "int_of_float x = (if 0 \<le> x then \<lfloor>x\<rfloor> else \<lceil>x\<rceil>)"

subsection \<open>Dates and times\<close>

text \<open>
  \<^verbatim>\<open>datetime.date\<close>, \<^verbatim>\<open>datetime.time\<close> and the naive \<^verbatim>\<open>datetime.datetime\<close>, with
  the fields Python keeps. \<open>toordinal\<close> is the day number of the proleptic Gregorian
  calendar, computed as the standard library does.
\<close>

record date =
  year :: nat
  month :: nat
  day :: nat

record time =
  hour :: nat
  minute :: nat
  second :: nat
  microsecond :: nat

record datetime =
  dt_date :: date
  dt_time :: time

definition is_leap :: "nat \<Rightarrow> bool" where
  "is_leap y \<longleftrightarrow> y mod 4 = 0 \<and> (y mod 100 \<noteq> 0 \<or> y mod 400 = 0)"

definition days_before_year :: "nat \<Rightarrow> int" where
  "days_before_year y =
     (let p = int y - 1 in p * 365 + p div 4 - p div 100 + p div 400)"

definition days_in_month :: "nat \<Rightarrow> nat \<Rightarrow> nat" where
  "days_in_month y m =
     (if m = 2 \<and> is_leap y then 29
      else [0, 31, 28, 31, 30, 31, 30, 31, 31, 30, 31, 30, 31] ! m)"

definition days_before_month :: "nat \<Rightarrow> nat \<Rightarrow> int" where
  "days_before_month y m =
     [0, 0, 31, 59, 90, 120, 151, 181, 212, 243, 273, 304, 334] ! m
       + (if 2 < m \<and> is_leap y then 1 else 0)"

definition toordinal :: "date \<Rightarrow> int" where
  "toordinal d = days_before_year (year d) + days_before_month (year d) (month d) + int (day d)"

definition valid_date :: "date \<Rightarrow> bool" where
  "valid_date d \<longleftrightarrow> 1 \<le> year d \<and> year d \<le> 9999 \<and> 1 \<le> month d \<and> month d \<le> 12
     \<and> 1 \<le> day d \<and> day d \<le> days_in_month (year d) (month d)"

definition valid_time :: "time \<Rightarrow> bool" where
  "valid_time t \<longleftrightarrow> hour t < 24 \<and> minute t < 60 \<and> second t < 60 \<and> microsecond t < 1000000"

definition valid_datetime :: "datetime \<Rightarrow> bool" where
  "valid_datetime dt \<longleftrightarrow> valid_date (dt_date dt) \<and> valid_time (dt_time dt)"

definition combine :: "date \<Rightarrow> time \<Rightarrow> datetime" where
  "combine d t = \<lparr>dt_date = d, dt_time = t\<rparr>"

text \<open>Comparison of two datetimes goes through the fields, from the year down.\<close>

definition datetime_key :: "datetime \<Rightarrow> nat list" where
  "datetime_key dt =
     [year (dt_date dt), month (dt_date dt), day (dt_date dt),
      hour (dt_time dt), minute (dt_time dt), second (dt_time dt), microsecond (dt_time dt)]"

fun key_less :: "nat list \<Rightarrow> nat list \<Rightarrow> bool" where
  "key_less (a # as) (b # bs) = (a < b \<or> (a = b \<and> key_less as bs))"
| "key_less _ _ = False"

definition datetime_less :: "datetime \<Rightarrow> datetime \<Rightarrow> bool" where
  "datetime_less a b = key_less (datetime_key a) (datetime_key b)"

text \<open>
  \<^verbatim>\<open>end - start\<close> is a \<^verbatim>\<open>timedelta\<close>, built from the difference of the day numbers,
  of the seconds of the day and of the microseconds. A timedelta is kept here as its
  whole number of microseconds, which is what \<^verbatim>\<open>total_seconds()\<close> divides by a
  million.
\<close>

type_synonym timedelta = int

definition datetime_sub :: "datetime \<Rightarrow> datetime \<Rightarrow> timedelta" where
  "datetime_sub a b =
     (let days1 = toordinal (dt_date a); days2 = toordinal (dt_date b);
          secs1 = int (second (dt_time a) + minute (dt_time a) * 60 + hour (dt_time a) * 3600);
          secs2 = int (second (dt_time b) + minute (dt_time b) * 60 + hour (dt_time b) * 3600)
      in ((days1 - days2) * 86400 + (secs1 - secs2)) * 1000000
           + (int (microsecond (dt_time a)) - int (microsecond (dt_time b))))"

definition total_seconds :: "timedelta \<Rightarrow> real" where
  "total_seconds td = of_int td / 1000000"

section \<open>The duration calculator\<close>

definition calculate_duration :: "datetime \<Rightarrow> datetime \<Rightarrow> pystr \<times> real" where
  "calculate_duration start_time end_time =
     (let duration = datetime_sub end_time start_time;
          total_minutes = total_seconds duration / 60;
          (hours, minutes) = divmod_float total_minutes 60
      in (str_int (int_of_float hours) @ xiaoshi @ str_int (int_of_float minutes) @ fenzhong,
          total_minutes))"

text \<open>
  The inverse parse of the duration chart:
  \<^verbatim>\<open>int(x.split(H)[0]) * 60 + int(x.split(H)[1].replace(M, ''))\<close>
  with \<open>H\<close> and \<open>M\<close> the two literals. The left operand of \<open>+\<close> is evaluated first, so
  its exception wins.
\<close>

definition duration_minutes :: "pystr \<Rightarrow> error + int" where
  "duration_minutes x =
     bind_err (py_split x xiaoshi) (\<lambda>parts0.
     bind_err (py_index parts0 0) (\<lambda>p0.
     bind_err (py_int p0) (\<lambda>h.
     bind_err (py_split x xiaoshi) (\<lambda>parts1.
     bind_err (py_index parts1 1) (\<lambda>p1.
     bind_err (py_int (py_replace p1 fenzhong [])) (\<lambda>m.
     Inr (h * 60 + m)))))))"


section \<open>The record table\<close>

subsection \<open>Cells and frames\<close>

text \<open>
  The values a cell of the table holds in this program: text, an integer, a float, a
  \<^verbatim>\<open>datetime.date\<close> object, a boolean, or the missing value \<^verbatim>\<open>NaN\<close>. A pandas
  timestamp at midnight is written with \<open>CDate\<close> and \<^verbatim>\<open>NaT\<close> with \<open>CNaN\<close>.
\<close>

datatype cell = CStr pystr | CInt int | CFloat real | CDate date | CBool bool | CNaN

text \<open>
  A \<^verbatim>\<open>DataFrame\<close>: the column names and the rows, each row with one cell per column.
  Every frame of the program is numbered 0, 1, 2, ... (\<^verbatim>\<open>read_csv\<close>, \<^verbatim>\<open>concat\<close> with
  \<^verbatim>\<open>ignore_index\<close>, \<^verbatim>\<open>reset_index(drop=True)\<close>), so the index is the position of the
  row and is not stored. Column names are distinct.
\<close>

record dataframe =
  columns :: "pystr list"
  rows :: "cell list list"

definition well_formed :: "dataframe \<Rightarrow> bool" where
  "well_formed df \<longleftrightarrow> distinct (columns df) \<and> (\<forall>r \<in> set (rows df). length r = length (columns df))"

definition empty_frame :: "pystr list \<Rightarrow> dataframe" where \<comment> \<open>\<^verbatim>\<open>pd.DataFrame(columns=cs)\<close>\<close>
  "empty_frame cs = \<lparr>columns = cs, rows = []\<rparr>"


fun position :: "'a list \<Rightarrow> 'a \<Rightarrow> nat option" where
  "position [] a = None"
| "position (x # xs) a = (if x = a then Some 0 else map_option Suc (position xs a))"

text \<open>The cell of a row under a column name; missing when the row has no such column.\<close>

definition cell_of :: "pystr list \<Rightarrow> cell list \<Rightarrow> pystr \<Rightarrow> cell" where
  "cell_of cols row c =
     (case position cols c of
        None \<Rightarrow> CNaN
      | Some j \<Rightarrow> if j < length row then row ! j else CNaN)"

definition column :: "dataframe \<Rightarrow> pystr \<Rightarrow> error + cell list" where \<comment> \<open>\<^verbatim>\<open>data[c]\<close>\<close>
  "column df c =
     (if c \<in> set (columns df) then Inr (map (\<lambda>r. cell_of (columns df) r c) (rows df))
      else Inl KeyError)"

definition set_column :: "dataframe \<Rightarrow> pystr \<Rightarrow> cell list \<Rightarrow> dataframe" where
  \<comment> \<open>\<^verbatim>\<open>data[c] = values\<close> for a column the frame has\<close>
  "set_column df c vs =
     (case position (columns df) c of
        None \<Rightarrow> df
      | Some j \<Rightarrow> df\<lparr>rows := map (\<lambda>(r, v). r[j := v]) (zip (rows df) vs)\<rparr>)"

text \<open>
  \<^verbatim>\<open>pd.concat([a, b], ignore_index=True)\<close>: the columns of \<open>a\<close>, then those of \<open>b\<close>
  that \<open>a\<close> lacks; the rows of \<open>a\<close>, then the rows of \<open>b\<close>, with the missing value
  where a frame has no such column.
\<close>

definition concat_frames :: "dataframe \<Rightarrow> dataframe \<Rightarrow> dataframe" where
  "concat_frames a b =
     (let cols = columns a @ filter (\<lambda>c. c \<notin> set (columns a)) (columns b)
      in \<lparr>columns = cols,
          rows = map (\<lambda>r. map (cell_of (columns a) r) cols) (rows a)
               @ map (\<lambda>r. map (cell_of (columns b) r) cols) (rows b)\<rparr>)"

text \<open>\<^verbatim>\<open>data.drop(i).reset_index(drop=True)\<close>: the row labelled \<open>i\<close> goes, the others
  are numbered anew; a label the index does not have raises \<^verbatim>\<open>KeyError\<close>.\<close>

definition drop_row :: "dataframe \<Rightarrow> int \<Rightarrow> error + dataframe" where
  "drop_row df i =
     (if 0 \<le> i \<and> i < int (length (rows df))
      then Inr (df\<lparr>rows := take (nat i) (rows df) @ drop (Suc (nat i)) (rows df)\<rparr>)
      else Inl KeyError)"

text \<open>\<^verbatim>\<open>series.apply(f)\<close>: \<open>f\<close> on every value in turn; the first exception ends it.\<close>

fun apply_cells :: "('a \<Rightarrow> error + 'b) \<Rightarrow> 'a list \<Rightarrow> error + 'b list" where
  "apply_cells f [] = Inr []"
| "apply_cells f (x # xs) =
     bind_err (f x) (\<lambda>y. bind_err (apply_cells f xs) (\<lambda>ys. Inr (y # ys)))"

subsection \<open>Writing and reading the file\<close>

text \<open>
  The file \<^verbatim>\<open>headache_data.csv\<close> is kept as the table of its fields, the header line
  and the data lines, after the quoting of CSV and the encoding (UTF-8 with a byte order
  mark, which \<^verbatim>\<open>read_csv\<close> drops) are undone: both are the same on the way out and on the
  way in.
\<close>

record csv_file =
  header :: "pystr list"
  body :: "pystr list list"

definition zfill :: "nat \<Rightarrow> pystr \<Rightarrow> pystr" where
  "zfill w s = replicate (w - length s) 48 @ s"

definition isoformat :: "date \<Rightarrow> pystr" where \<comment> \<open>\<^verbatim>\<open>str(date)\<close>, YYYY-MM-DD\<close>
  "isoformat d =
     zfill 4 (digits (year d)) @ [45] @ zfill 2 (digits (month d)) @ [45] @ zfill 2 (digits (day d))"

definition strftime_minutes :: "datetime \<Rightarrow> pystr" where \<comment> \<open>\<^verbatim>\<open>strftime('%Y-%m-%d %H:%M')\<close>\<close>
  "strftime_minutes dt =
     isoformat (dt_date dt) @ [32] @ zfill 2 (digits (hour (dt_time dt))) @ [58]
       @ zfill 2 (digits (minute (dt_time dt)))"

text \<open>
  The text of a float: the whole part, a point, the decimals, \<open>0\<close> alone for a whole
  number. This is Python's \<^verbatim>\<open>repr\<close> for a float with a short decimal writing, as the
  whole numbers of minutes are; the rounding of other values to binary and the
  exponent form of very large and very small ones are not modelled.
\<close>

fun frac_digits :: "nat \<Rightarrow> real \<Rightarrow> pystr" where
  "frac_digits 0 r = []"
| "frac_digits (Suc n) r =
     (if r = 0 then []
      else (48 + nat \<lfloor>r * 10\<rfloor>) # frac_digits n (r * 10 - of_int \<lfloor>r * 10\<rfloor>))"

definition float_repr :: "real \<Rightarrow> pystr" where
  "float_repr x =
     (let a = \<bar>x\<bar>; n = \<lfloor>a\<rfloor>; f = a - of_int n
      in (if x < 0 then [45] else []) @ digits (nat n) @ [46]
           @ (if f = 0 then [48] else frac_digits 17 f))"

fun render_cell :: "cell \<Rightarrow> pystr" where
  "render_cell (CStr s) = s"
| "render_cell (CInt n) = str_int n"
| "render_cell (CFloat x) = float_repr x"
| "render_cell (CDate d) = isoformat d"
| "render_cell (CBool b) = (if b then ascii ''True'' else ascii ''False'')"
| "render_cell CNaN = []"

definition to_csv :: "dataframe \<Rightarrow> csv_file" where \<comment> \<open>\<^verbatim>\<open>data.to_csv(path, index=False)\<close>\<close>
  "to_csv df = \<lparr>header = columns df, body = map (map render_cell) (rows df)\<rparr>"

text \<open>
  \<^verbatim>\<open>pd.read_csv\<close> with its defaults. A field that is one of the default markers of a
  missing value, the empty field among them, is read as \<^verbatim>\<open>NaN\<close>. The type of a column
  is found from all its fields: integers when every field is an integer numeral,
  floats when every field is a numeral or missing, booleans when every field is a
  boolean word or missing, and text otherwise, where only the missing fields change.
  Numerals are read in the writings \<^verbatim>\<open>to_csv\<close> gives them: blanks around, a sign, digits,
  a point and decimals; the exponent form and the words for infinity are left out.
\<close>

definition na_values :: "pystr list" where
  "na_values = map ascii
     ['''', ''#N/A'', ''#N/A N/A'', ''#NA'', ''-1.#IND'', ''-1.#QNAN'', ''-NaN'', ''-nan'',
      ''1.#IND'', ''1.#QNAN'', ''<NA>'', ''N/A'', ''NA'', ''NULL'', ''NaN'', ''None'', ''n/a'',
      ''nan'', ''null'']"

definition is_na :: "pystr \<Rightarrow> bool" where
  "is_na f \<longleftrightarrow> f \<in> set na_values"

definition is_blank :: "nat \<Rightarrow> bool" where
  "is_blank c \<longleftrightarrow> c = 32 \<or> (9 \<le> c \<and> c \<le> 13)"

definition trim :: "pystr \<Rightarrow> pystr" where
  "trim s = rev (dropWhile is_blank (rev (dropWhile is_blank s)))"

definition digits_number :: "pystr \<Rightarrow> nat" where
  "digits_number s = foldl (\<lambda>a c. a * 10 + (c - 48)) 0 s"

definition unsigned_int :: "pystr \<Rightarrow> nat option" where
  "unsigned_int s = (if s \<noteq> [] \<and> list_all is_digit s then Some (digits_number s) else None)"

definition unsigned_decimal :: "pystr \<Rightarrow> real option" where
  "unsigned_decimal s =
     (let ip = takeWhile is_digit s; rest = dropWhile is_digit s
      in case rest of
           [] \<Rightarrow> if ip = [] then None else Some (real (digits_number ip))
         | c # fp \<Rightarrow>
             if c = 46 \<and> list_all is_digit fp \<and> (ip \<noteq> [] \<or> fp \<noteq> [])
             then Some (real (digits_number ip) + real (digits_number fp) / 10 ^ length fp)
             else None)"

definition signed :: "(pystr \<Rightarrow> 'a option) \<Rightarrow> ('a \<Rightarrow> 'a) \<Rightarrow> pystr \<Rightarrow> 'a option" where
  "signed unsigned neg s =
     (case trim s of
        [] \<Rightarrow> None
      | c # cs \<Rightarrow>
          if c = 45 then map_option neg (unsigned cs)
          else if c = 43 then unsigned cs
          else unsigned (c # cs))"

definition int_field :: "pystr \<Rightarrow> int option" where
  "int_field f =
     (case signed (\<lambda>s. map_option int (unsigned_int s)) uminus f of
        None \<Rightarrow> None
      | Some v \<Rightarrow> if - (2 ^ 63) \<le> v \<and> v < 2 ^ 63 then Some v else None)"

definition float_field :: "pystr \<Rightarrow> real option" where
  "float_field f = signed unsigned_decimal uminus f"

definition bool_field :: "pystr \<Rightarrow> bool option" where
  "bool_field f =
     (if f \<in> set (map ascii [''True'', ''TRUE'', ''true'']) then Some True
      else if f \<in> set (map ascii [''False'', ''FALSE'', ''false'']) then Some False
      else None)"

definition read_column :: "pystr list \<Rightarrow> cell list" where
  "read_column fs =
     (if list_all (\<lambda>f. \<not> is_na f \<and> int_field f \<noteq> None) fs
      then map (\<lambda>f. case int_field f of Some n \<Rightarrow> CInt n | None \<Rightarrow> CNaN) fs
      else if list_all (\<lambda>f. is_na f \<or> float_field f \<noteq> None) fs
      then map (\<lambda>f. if is_na f then CNaN
                    else case float_field f of Some x \<Rightarrow> CFloat x | None \<Rightarrow> CNaN) fs
      else if list_all (\<lambda>f. is_na f \<or> bool_field f \<noteq> None) fs
      then map (\<lambda>f. if is_na f then CNaN
                    else case bool_field f of Some b \<Rightarrow> CBool b | None \<Rightarrow> CNaN) fs
      else map (\<lambda>f. if is_na f then CNaN else CStr f) fs)"

text \<open>A data line with fewer fields than the header is filled up with missing values.\<close>

definition field_of :: "pystr list \<Rightarrow> nat \<Rightarrow> pystr" where
  "field_of r j = (if j < length r then r ! j else [])"

definition rows_of_columns :: "nat \<Rightarrow> 'a list list \<Rightarrow> 'a list list" where
  "rows_of_columns n cols = map (\<lambda>i. map (\<lambda>c. c ! i) cols) [0..<n]"

definition read_csv :: "csv_file \<Rightarrow> error + dataframe" where
  "read_csv f =
     (if header f = [] then Inl EmptyDataError
      else if list_ex (\<lambda>r. length (header f) < length r) (body f) then Inl ParserError
      else Inr \<lparr>columns = header f,
                rows = rows_of_columns (length (body f))
                  (map (\<lambda>j. read_column (map (\<lambda>r. field_of r j) (body f)))
                     [0..<length (header f)])\<rparr>)"

subsection \<open>The record store\<close>

text \<open>The state of the program between two runs: the file, or none yet.\<close>

type_synonym store = "csv_file option"

definition canonical_columns :: "pystr list" where
  "canonical_columns = map ascii
     [''Date'', ''Start Time'', ''End Time'', ''Duration'', ''Severity'', ''Remarks'',
      ''Location'', ''Total Minutes'']"

definition load_data :: "store \<Rightarrow> error + dataframe" where
  "load_data st =
     (case st of
        None \<Rightarrow> Inr (empty_frame canonical_columns) \<comment> \<open>\<^verbatim>\<open>except FileNotFoundError\<close>\<close>
      | Some f \<Rightarrow> read_csv f)"

definition save_data :: "dataframe \<Rightarrow> store" where
  "save_data df = Some (to_csv df)"

text \<open>The second source file, a copy of the program in an earlier state, keeps seven columns.\<close>

definition columns_copy :: "pystr list" where
  "columns_copy = map ascii
     [''Date'', ''Start Time'', ''End Time'', ''Duration'', ''Severity'', ''Remarks'',
      ''Location'']"

definition load_data_copy :: "store \<Rightarrow> error + dataframe" where
  "load_data_copy st =
     (case st of
        None \<Rightarrow> Inr (empty_frame columns_copy)
      | Some f \<Rightarrow> read_csv f)"

section \<open>The handlers of the form\<close>

text \<open>What a run shows to the user, and what it does to the file.\<close>

datatype message = Record_added | End_before_start | Fields_incomplete | Time_format_error
  | Record_deleted

datatype outcome = Shown message | Raised error | No_action

text \<open>
  The effect of one run of a handler: the message shown or the exception that left the
  handler, the file afterwards, and the calls of the duration calculator made on the
  way, each with its two arguments.
\<close>

record effect =
  shown :: outcome
  stored :: store
  calls :: "(datetime \<times> datetime) list"

subsection \<open>Adding a record\<close>

text \<open>
  The values of the form of the main program. A widget that gave no value is \<open>None\<close>;
  date and time objects always count as true in the test of the handler.
\<close>

record form =
  form_date :: "date option"
  form_start_time :: "time option"
  form_end_time :: "time option"
  form_severity :: int
  form_remarks :: pystr
  form_location :: pystr

definition caught :: "error \<Rightarrow> outcome" where \<comment> \<open>\<^verbatim>\<open>except ValueError\<close> around the handler\<close>
  "caught err = (if is_value_error err then Shown Time_format_error else Raised err)"

definition submit :: "form \<Rightarrow> store \<Rightarrow> effect" where
  "submit f st =
     (case (form_date f, form_start_time f, form_end_time f) of
        (Some d, Some s, Some e) \<Rightarrow>
          (let start_datetime = combine d s;
               end_datetime = combine d e
           in if datetime_less end_datetime start_datetime
              then \<lparr>shown = Shown End_before_start, stored = st, calls = []\<rparr>
              else
                (let (duration, total_minutes) = calculate_duration start_datetime end_datetime;
                     new_record =
                       \<lparr>columns = canonical_columns,
                        rows = [[CDate d, CStr (strftime_minutes start_datetime),
                                 CStr (strftime_minutes end_datetime), CStr duration,
                                 CInt (form_severity f), CStr (form_remarks f),
                                 CStr (form_location f), CFloat total_minutes]]\<rparr>
                 in case load_data st of
                      Inl err \<Rightarrow>
                        \<lparr>shown = caught err, stored = st,
                         calls = [(start_datetime, end_datetime)]\<rparr>
                    | Inr data \<Rightarrow>
                        \<lparr>shown = Shown Record_added,
                         stored = save_data (concat_frames data new_record),
                         calls = [(start_datetime, end_datetime)]\<rparr>))
      | _ \<Rightarrow> \<lparr>shown = Shown Fields_incomplete, stored = st, calls = []\<rparr>)"

text \<open>
  The handler of the copy: the places are chosen from a list and joined with a comma and
  a blank, and nothing compares the two times.
\<close>

record form_copy =
  copy_date :: date
  copy_start_time :: time
  copy_end_time :: time
  copy_severity :: int
  copy_remarks :: pystr
  copy_location :: "pystr list"

fun py_join :: "pystr \<Rightarrow> pystr list \<Rightarrow> pystr" where \<comment> \<open>\<^verbatim>\<open>sep.join(xs)\<close>\<close>
  "py_join sep [] = []"
| "py_join sep [x] = x"
| "py_join sep (x # y # ys) = x @ sep @ py_join sep (y # ys)"

definition comma_blank :: pystr where
  "comma_blank = [44, 32]"

definition not_chosen :: pystr where \<comment> \<open>the literal for "nothing chosen", U+672A U+9009 U+62E9\<close>
  "not_chosen = [26410, 36873, 25321]"

definition submit_copy :: "form_copy \<Rightarrow> store \<Rightarrow> effect" where
  "submit_copy f st =
     (let start_datetime = combine (copy_date f) (copy_start_time f);
          end_datetime = combine (copy_date f) (copy_end_time f);
          (duration, total_minutes) = calculate_duration start_datetime end_datetime;
          location_str =
            (if copy_location f \<noteq> [] then py_join comma_blank (copy_location f) else not_chosen);
          new_record =
            \<lparr>columns = columns_copy,
             rows = [[CDate (copy_date f), CStr (strftime_minutes start_datetime),
                      CStr (strftime_minutes end_datetime), CStr duration,
                      CInt (copy_severity f), CStr (copy_remarks f), CStr location_str]]\<rparr>
      in case load_data_copy st of
           Inl err \<Rightarrow>
             \<lparr>shown = caught err, stored = st, calls = [(start_datetime, end_datetime)]\<rparr>
         | Inr data \<Rightarrow>
             \<lparr>shown = Shown Record_added,
              stored = save_data (concat_frames data new_record),
              calls = [(start_datetime, end_datetime)]\<rparr>)"

subsection \<open>Deleting a record\<close>


section \<open>The charts\<close>

text \<open>
  What a chart is drawn from, or why it is not drawn: the message about a missing column,
  or the exception that ends the run.
\<close>

datatype 'a report = Chart 'a | Column_missing | Failed error

definition report_of :: "error + 'a \<Rightarrow> 'a report" where
  "report_of r = (case r of Inl err \<Rightarrow> Failed err | Inr v \<Rightarrow> Chart v)"

text \<open>
  \<^verbatim>\<open>value_counts()\<close> of a column: the number of rows for each value that occurs, missing
  values left out. For a column of categories every category is counted, also one with
  no row. The order of the counts is not kept.
\<close>

definition value_counts :: "'a option list \<Rightarrow> ('a \<rightharpoonup> nat)" where
  "value_counts xs = (\<lambda>v. if Some v \<in> set xs then Some (count_list xs (Some v)) else None)"

definition value_counts_categories :: "'a list \<Rightarrow> 'a option list \<Rightarrow> ('a \<rightharpoonup> nat)" where
  "value_counts_categories cats xs =
     (\<lambda>v. if v \<in> set cats then Some (count_list xs (Some v)) else None)"

subsection \<open>Durations in bins\<close>

definition bin_labels :: "pystr list" where
  "bin_labels =
     [ascii ''0-30'' @ fenzhong, ascii ''30-60'' @ fenzhong, ascii ''60-120'' @ fenzhong,
      ascii ''120'' @ fenzhong @ [20197, 19978]]"

text \<open>
  \<^verbatim>\<open>pd.cut\<close> with the edges 0, 30, 60, 120 and infinity, closed on the left: the label of
  the interval a value lies in, and the missing value for a value in none.
\<close>

definition cut_label :: "int \<Rightarrow> pystr option" where
  "cut_label v =
     (if 0 \<le> v \<and> v < 30 then Some (bin_labels ! 0)
      else if 30 \<le> v \<and> v < 60 then Some (bin_labels ! 1)
      else if 60 \<le> v \<and> v < 120 then Some (bin_labels ! 2)
      else if 120 \<le> v then Some (bin_labels ! 3)
      else None)"

text \<open>The function applied to the cells of the column: only a text has \<^verbatim>\<open>split\<close>.\<close>

definition cell_duration_minutes :: "cell \<Rightarrow> error + int" where
  "cell_duration_minutes x = (case x of CStr s \<Rightarrow> duration_minutes s | _ \<Rightarrow> Inl AttributeError)"

definition duration_chart :: "dataframe \<Rightarrow> (pystr \<rightharpoonup> nat) report" where
  "duration_chart data =
     (if ascii ''Duration'' \<in> set (columns data)
      then report_of
        (bind_err (column data (ascii ''Duration'')) (\<lambda>duration.
         bind_err (apply_cells cell_duration_minutes duration) (\<lambda>duration_minutes.
         Inr (value_counts_categories bin_labels (map cut_label duration_minutes)))))
      else Column_missing)"

subsection \<open>Places\<close>

definition cell_split_location :: "cell \<Rightarrow> error + pystr list" where
  "cell_split_location loc = (case loc of CStr s \<Rightarrow> py_split s comma_blank | _ \<Rightarrow> Inl AttributeError)"

text \<open>\<^verbatim>\<open>explode()\<close>: one row for each element of a list, a missing value for an empty list.\<close>

definition explode :: "'a list list \<Rightarrow> 'a option list" where
  "explode xss = concat (map (\<lambda>xs. if xs = [] then [None] else map Some xs) xss)"

definition location_chart :: "dataframe \<Rightarrow> (pystr \<rightharpoonup> nat) report" where
  "location_chart data =
     (if ascii ''Location'' \<in> set (columns data)
      then report_of
        (bind_err (column data (ascii ''Location'')) (\<lambda>location.
         bind_err (apply_cells cell_split_location location) (\<lambda>lists.
         Inr (value_counts (explode lists)))))
      else Column_missing)"

subsection \<open>Severity over time\<close>

text \<open>
  \<^verbatim>\<open>pd.to_datetime\<close> on the cells the program writes in the date column: a date object, a
  text of the form YYYY-MM-DD, which is what the file holds for a date, and a missing
  value. pandas reads more writings of a date than this one, and a number as a count of
  nanoseconds; the model stops with an exception at those.
\<close>

definition iso_date :: "pystr \<Rightarrow> date option" where
  "iso_date s =
     (if length s = 10 \<and> s ! 4 = 45 \<and> s ! 7 = 45
         \<and> list_all is_digit (take 4 s) \<and> list_all is_digit (take 2 (drop 5 s))
         \<and> list_all is_digit (drop 8 s)
      then (let d = \<lparr>year = digits_number (take 4 s), month = digits_number (take 2 (drop 5 s)),
                      day = digits_number (drop 8 s)\<rparr>
            in if valid_date d then Some d else None)
      else None)"

definition to_datetime :: "cell \<Rightarrow> error + cell" where
  "to_datetime x =
     (case x of
        CDate d \<Rightarrow> Inr (CDate d)
      | CNaN \<Rightarrow> Inr CNaN
      | CStr s \<Rightarrow> (case iso_date s of Some d \<Rightarrow> Inr (CDate d) | None \<Rightarrow> Inl ValueError)
      | _ \<Rightarrow> Inl TypeError)"

text \<open>
  The line chart is given the whole table, with the date on one axis and the severity on
  the other; what it is drawn from is the pair of the two cells of every row, in the
  order of the rows.
\<close>

definition severity_chart :: "dataframe \<Rightarrow> (cell \<times> cell) list report" where
  "severity_chart data =
     report_of
       (bind_err (column data (ascii ''Date'')) (\<lambda>dates.
        bind_err (apply_cells to_datetime dates) (\<lambda>stamps.
        (let data' = set_column data (ascii ''Date'') stamps
         in Inr (map (\<lambda>r. (cell_of (columns data') r (ascii ''Date''),
                           cell_of (columns data') r (ascii ''Severity'')))
                   (rows data'))))))"

section \<open>The contracts in the specification's words\<close>

subsection \<open>The duration contract in the specification's words\<close>

text \<open>
  The elapsed time as the specification words it: the difference of the two instants,
  each counted in microseconds from the start of the calendar, expressed in minutes.
\<close>

definition timestamp_us :: "datetime \<Rightarrow> int" where
  "timestamp_us dt =
     (toordinal (dt_date dt) * 86400
        + int (second (dt_time dt) + minute (dt_time dt) * 60 + hour (dt_time dt) * 3600)) * 1000000
       + int (microsecond (dt_time dt))"

definition elapsed_minutes :: "datetime \<Rightarrow> datetime \<Rightarrow> real" where
  "elapsed_minutes start_time end_time =
     (of_int (timestamp_us end_time) - of_int (timestamp_us start_time)) / 60000000"

text \<open>
  The label of a number of minutes: the quotient and the remainder of the division by 60,
  each floored to an integer.
\<close>

definition floor_label :: "real \<Rightarrow> pystr" where
  "floor_label tm =
     str_int \<lfloor>tm / 60\<rfloor> @ xiaoshi @ str_int \<lfloor>tm - 60 * of_int \<lfloor>tm / 60\<rfloor>\<rfloor> @ fenzhong"



text \<open>The four intervals of the duration chart, numbered as their labels are.\<close>

definition bin_interval :: "nat \<Rightarrow> int \<Rightarrow> bool" where
  "bin_interval k v \<longleftrightarrow>
     (k = 0 \<and> 0 \<le> v \<and> v < 30) \<or> (k = 1 \<and> 30 \<le> v \<and> v < 60) \<or>
     (k = 2 \<and> 60 \<le> v \<and> v < 120) \<or> (k = 3 \<and> 120 \<le> v)"

text \<open>A datetime written out, for the examples.\<close>

definition mk_datetime :: "nat \<Rightarrow> nat \<Rightarrow> nat \<Rightarrow> nat \<Rightarrow> nat \<Rightarrow> nat \<Rightarrow> datetime" where
  "mk_datetime y m d hh mm ss =
     \<lparr>dt_date = \<lparr>year = y, month = m, day = d\<rparr>,
      dt_time = \<lparr>hour = hh, minute = mm, second = ss, microsecond = 0\<rparr>\<rparr>"

definition mk_time :: "nat \<Rightarrow> nat \<Rightarrow> time" where
  "mk_time hh mm = \<lparr>hour = hh, minute = mm, second = 0, microsecond = 0\<rparr>"

subsection \<open>Examples\<close>

text \<open>
  A submission on 2024-01-01 to each of the two handlers, with the two times left open,
  and a file of three records as the main program writes them, with the frame that is
  read from it.
\<close>

definition example_form_copy :: "nat \<Rightarrow> nat \<Rightarrow> nat \<Rightarrow> nat \<Rightarrow> form_copy" where
  "example_form_copy h1 m1 h2 m2 =
     \<lparr>copy_date = \<lparr>year = 2024, month = 1, day = 1\<rparr>, copy_start_time = mk_time h1 m1,
      copy_end_time = mk_time h2 m2, copy_severity = 3, copy_remarks = [],
      copy_location = [[24038, 20391]]\<rparr>"

definition example_form :: "nat \<Rightarrow> nat \<Rightarrow> nat \<Rightarrow> nat \<Rightarrow> form" where
  "example_form h1 m1 h2 m2 =
     \<lparr>form_date = Some \<lparr>year = 2024, month = 1, day = 1\<rparr>, form_start_time = Some (mk_time h1 m1),
      form_end_time = Some (mk_time h2 m2), form_severity = 3, form_remarks = [],
      form_location = [24038, 20391]\<rparr>"


definition example_row :: "nat \<Rightarrow> cell list" where
  "example_row k =
     [[CStr (ascii ''2024-02-01''), CStr (ascii ''2024-02-01 09:00''), CStr (ascii ''2024-02-01 10:30''),
       CStr ([49] @ xiaoshi @ [51, 48] @ fenzhong), CInt 3, CNaN, CStr [24038, 20391], CFloat 90],
      [CStr (ascii ''2024-01-05''), CStr (ascii ''2024-01-05 20:00''), CStr (ascii ''2024-01-05 20:20''),
       CStr ([48] @ xiaoshi @ [50, 48] @ fenzhong), CInt 2, CNaN, CStr [21491, 20391], CFloat 20],
      [CStr (ascii ''2024-01-12''), CStr (ascii ''2024-01-12 08:00''), CStr (ascii ''2024-01-12 11:00''),
       CStr ([51] @ xiaoshi @ [48] @ fenzhong), CInt 5, CNaN, CStr [21452, 20391], CFloat 180]] ! k"

definition example_frame :: dataframe where
  "example_frame = \<lparr>columns = canonical_columns, rows = [example_row 0, example_row 1, example_row 2]\<rparr>"

text \<open>
  The file that the handler of the copy writes for a start at 10:30 and an end at 09:00,
  and the frame read from it.
\<close>

definition negative_frame :: dataframe where
  "negative_frame =
     \<lparr>columns = columns_copy,
      rows = [[CStr (ascii ''2024-01-01''), CStr (ascii ''2024-01-01 10:30''),
               CStr (ascii ''2024-01-01 09:00''), CStr ([45, 50] @ xiaoshi @ [51, 48] @ fenzhong),
               CInt 3, CNaN, CStr [24038, 20391]]]\<rparr>"

definition negative_file :: csv_file where
  "negative_file =
     \<lparr>header = columns_copy,
      body = [[ascii ''2024-01-01'', ascii ''2024-01-01 10:30'', ascii ''2024-01-01 09:00'',
               [45, 50] @ xiaoshi @ [51, 48] @ fenzhong, [51], [], [24038, 20391]]]\<rparr>"

text \<open>Two records, the first with two places joined as the handler of the copy joins them.\<close>

definition places_frame :: dataframe where
  "places_frame =
     \<lparr>columns = canonical_columns,
      rows = [(example_row 0)[6 := CStr ([24038, 20391] @ comma_blank @ [21491, 20391])],
              example_row 1]\<rparr>"

section \<open>Strings and numbers: facts\<close>

lemma bind_err_simps [simp]:
  "bind_err (Inl e) f = Inl e" "bind_err (Inr v) f = f v"
  by (simp_all add: bind_err_def)

lemma digits_chars: "c \<in> set (digits n) \<Longrightarrow> 48 \<le> c \<and> c \<le> 57"
proof (induction n rule: digits.induct)
  case (1 n)
  show ?case
  proof (cases "n < 10")
    case True
    with "1.prems" show ?thesis by (simp add: digits.simps [of n])
  next
    case False
    with "1.prems" "1.IH" show ?thesis
      by (auto simp add: digits.simps [of n])
  qed
qed

lemma digits_nonempty: "digits n \<noteq> []"
  by (subst digits.simps) simp

definition dec_step :: "nat \<Rightarrow> nat \<Rightarrow> nat" where
  "dec_step a c = a * 10 + (c - 48)"

lemma digits_value_foldl:
  "list_all is_digit ds \<Longrightarrow> digits_value acc ds = Some (foldl dec_step acc ds)"
  by (induction acc ds rule: digits_value.induct) (simp_all add: dec_step_def)

lemma foldl_digits: "foldl dec_step 0 (digits n) = n"
proof (induction n rule: digits.induct)
  case (1 n)
  show ?case
  proof (cases "n < 10")
    case True
    then show ?thesis by (simp add: digits.simps [of n] dec_step_def)
  next
    case False
    with "1.IH" show ?thesis
      by (simp add: digits.simps [of n] dec_step_def)
  qed
qed

lemma parse_nat_digits: "parse_nat (digits n) = Some n"
proof -
  have all: "list_all is_digit (digits n)"
    using digits_chars [of _ n] by (auto simp: list_all_iff is_digit_def)
  obtain c cs where eq: "digits n = c # cs"
    using digits_nonempty [of n] by (cases "digits n") auto
  from all eq have c: "is_digit c" and cs: "list_all is_digit cs" by simp_all
  have "foldl dec_step 0 (c # cs) = n" using foldl_digits [of n] eq by simp
  then have "foldl dec_step (c - 48) cs = n" by (simp add: dec_step_def)
  with c cs show ?thesis
    by (simp add: parse_nat_def eq digits_value_foldl)
qed

lemma not_space_digit: "48 \<le> c \<Longrightarrow> c \<le> 57 \<Longrightarrow> \<not> is_space c"
  by (auto simp: is_space_def)

lemma strip_id: "s \<noteq> [] \<Longrightarrow> \<not> is_space (hd s) \<Longrightarrow> \<not> is_space (last s) \<Longrightarrow> strip s = s"
proof -
  assume a: "s \<noteq> []" "\<not> is_space (hd s)" "\<not> is_space (last s)"
  then have 1: "dropWhile is_space s = s" by (cases s) auto
  from a have "rev s \<noteq> []" "\<not> is_space (hd (rev s))" by (simp_all add: hd_rev)
  then have 2: "dropWhile is_space (rev s) = rev s" by (cases "rev s") auto
  show ?thesis by (simp add: strip_def 1 2)
qed


lemma digits_ends:
  "\<not> is_space (hd (digits n))" "\<not> is_space (last (digits n))"
proof -
  have "hd (digits n) \<in> set (digits n)" "last (digits n) \<in> set (digits n)"
    using digits_nonempty [of n] by simp_all
  then show "\<not> is_space (hd (digits n))" "\<not> is_space (last (digits n))"
    using digits_chars [of _ n] not_space_digit by blast+
qed

lemma strip_str_int: "strip (str_int i) = str_int i"
proof (rule strip_id)
  show "str_int i \<noteq> []" by (simp add: str_int_def digits_nonempty)
  show "\<not> is_space (hd (str_int i))"
    by (simp add: str_int_def digits_ends) (simp add: is_space_def)
  show "\<not> is_space (last (str_int i))"
    by (simp add: str_int_def digits_ends digits_nonempty)
qed

lemma py_int_str_int: "py_int (str_int i) = Inr i"
proof (cases "i < 0")
  case True
  have "strip (45 # digits (nat (- i))) = 45 # digits (nat (- i))"
    using strip_str_int [of i] True by (simp add: str_int_def)
  with True show ?thesis
    by (simp add: py_int_def str_int_def parse_nat_digits)
next
  case False
  obtain c cs where eq: "digits (nat i) = c # cs"
    using digits_nonempty [of "nat i"] by (cases "digits (nat i)") auto
  have c: "48 \<le> c \<and> c \<le> 57" using digits_chars [of c "nat i"] eq by simp
  have s: "strip (digits (nat i)) = c # cs"
    using strip_str_int [of i] False by (simp add: str_int_def eq)
  have p: "parse_nat (c # cs) = Some (nat i)"
    using parse_nat_digits [of "nat i"] eq by simp
  from False c s p show ?thesis
    by (simp add: py_int_def str_int_def)
qed

lemma str_int_chars: "c \<in> set (str_int i) \<Longrightarrow> c = 45 \<or> (48 \<le> c \<and> c \<le> 57)"
  using digits_chars by (auto simp: str_int_def split: if_splits)

lemma split_from_none:
  "sep = a # sep' \<Longrightarrow> a \<notin> set xs \<Longrightarrow> split_from sep cur xs = [cur @ xs]"
  by (induction xs arbitrary: cur) auto

lemma split_from_first:
  "sep = a # sep' \<Longrightarrow> a \<notin> set xs \<Longrightarrow>
   split_from sep cur (xs @ sep @ rest) = (cur @ xs) # split_from sep [] rest"
  by (induction xs arbitrary: cur) auto

lemma replace_from_suffix:
  "old = a # old' \<Longrightarrow> a \<notin> set xs \<Longrightarrow> replace_from old [] (xs @ old) = xs"
  by (induction xs) auto

lemma duration_minutes_label:
  "duration_minutes (str_int h @ xiaoshi @ str_int m @ fenzhong) = Inr (h * 60 + m)"
proof -
  have h: "23567 \<notin> set (str_int h)" using str_int_chars [of 23567 h] by auto
  have m: "23567 \<notin> set (str_int m @ fenzhong)"
    using str_int_chars [of 23567 m] by (auto simp: fenzhong_def)
  have m2: "20998 \<notin> set (str_int m)" using str_int_chars [of 20998 m] by auto
  have sp: "split_from xiaoshi [] (str_int h @ xiaoshi @ str_int m @ fenzhong)
      = [str_int h, str_int m @ fenzhong]"
    using split_from_first [of xiaoshi 23567 "[26102]" "str_int h" "[]" "str_int m @ fenzhong"]
      split_from_none [of xiaoshi 23567 "[26102]" "str_int m @ fenzhong" "[]"] h m
    by (simp add: xiaoshi_def)
  have rp: "replace_from fenzhong [] (str_int m @ fenzhong) = str_int m"
    using replace_from_suffix [of fenzhong 20998 "[38047]" "str_int m"] m2
    by (simp add: fenzhong_def)
  have ne: "xiaoshi \<noteq> []" "fenzhong \<noteq> []" by (simp_all add: xiaoshi_def fenzhong_def)
  show ?thesis
    by (simp add: duration_minutes_def py_split_def py_index_def py_replace_def ne sp rp
        py_int_str_int)
qed



section \<open>The calendar: facts\<close>

lemma days_before_month_step:
  assumes "1 \<le> m" "m < 12"
  shows "days_before_month y (Suc m) = days_before_month y m + int (days_in_month y m)"
proof -
  from assms have "m = 1 \<or> m = 2 \<or> m = 3 \<or> m = 4 \<or> m = 5 \<or> m = 6 \<or> m = 7 \<or> m = 8 \<or> m = 9
      \<or> m = 10 \<or> m = 11" by arith
  then show ?thesis
    by (elim disjE) (simp_all add: days_before_month_def days_in_month_def)
qed

lemma days_in_month_nonneg: "0 \<le> int (days_in_month y m)"
  by simp

lemma days_before_month_mono:
  assumes "1 \<le> m" "m \<le> m'" "m' \<le> 12"
  shows "days_before_month y m \<le> days_before_month y m'"
  using assms
proof (induction m')
  case 0
  then show ?case by simp
next
  case (Suc k)
  show ?case
  proof (cases "m = Suc k")
    case True
    then show ?thesis by simp
  next
    case False
    with Suc.prems have le: "m \<le> k" "k < 12" "1 \<le> k" by simp_all
    from Suc.IH [OF Suc.prems(1) le(1)] le(2) have "days_before_month y m \<le> days_before_month y k"
      by simp
    also have "\<dots> \<le> days_before_month y (Suc k)"
      using days_before_month_step [OF le(3) le(2), of y] by simp
    finally show ?thesis .
  qed
qed

lemma days_before_month_last:
  "days_before_month y 12 + int (days_in_month y 12) = (if is_leap y then 366 else 365)"
  by (simp add: days_before_month_def days_in_month_def)

lemma day_of_year_bound:
  assumes "1 \<le> m" "m \<le> 12" "d \<le> days_in_month y m"
  shows "days_before_month y m + int d \<le> (if is_leap y then 366 else 365)"
proof (cases "m = 12")
  case True
  with assms(3) days_before_month_last [of y] show ?thesis by (simp split: if_splits)
next
  case False
  with assms have lt: "m < 12" by simp
  have "days_before_month y m + int d \<le> days_before_month y (Suc m)"
    using days_before_month_step [OF assms(1) lt, of y] assms(3) by simp
  also have "\<dots> \<le> days_before_month y 12"
    using days_before_month_mono [of "Suc m" 12 y] lt by simp
  also have "\<dots> \<le> (if is_leap y then 366 else 365)"
    using days_before_month_last [of y] by (simp split: if_splits)
  finally show ?thesis .
qed


lemma div_step:
  fixes k n :: int
  assumes "0 < n"
  shows "k div n = (k - 1) div n + (if k mod n = 0 then 1 else 0)"
proof -
  define q where "q = (k - 1) div n"
  define r where "r = (k - 1) mod n"
  have k: "k = n * q + (r + 1)" by (simp add: q_def r_def)
  have r: "0 \<le> r" "r < n" using assms by (simp_all add: r_def)
  show ?thesis
  proof (cases "r + 1 = n")
    case True
    then have k': "k = n * (q + 1) + 0" using k by (simp add: algebra_simps)
    have "k div n = q + 1" by (rule int_div_pos_eq [where r = 0]) (use k' assms in simp_all)
    moreover have "k mod n = 0" by (rule int_mod_pos_eq [where q = "q + 1"]) (use k' assms in simp_all)
    ultimately show ?thesis by (simp add: q_def)
  next
    case False
    with r have r1: "0 \<le> r + 1" "r + 1 < n" by simp_all
    have "k div n = q" using k r1 by (rule int_div_pos_eq)
    moreover have "k mod n = r + 1" using k r1 by (rule int_mod_pos_eq)
    ultimately show ?thesis using r by (simp add: q_def)
  qed
qed

lemma mod_100_4: "(k::int) mod 100 = 0 \<Longrightarrow> k mod 4 = 0" by presburger
lemma mod_400_100: "(k::int) mod 400 = 0 \<Longrightarrow> k mod 100 = 0"
proof -
  assume "k mod 400 = 0"
  then have "400 dvd k" by (simp add: dvd_eq_mod_eq_0)
  moreover have "(100::int) dvd 400" by simp
  ultimately have "100 dvd k" by (rule dvd_trans [rotated])
  then show ?thesis by (simp add: dvd_eq_mod_eq_0)
qed


lemma year_step:
  fixes k :: int
  shows "k * 365 + k div 4 - k div 100 + k div 400 =
    (k - 1) * 365 + (k - 1) div 4 - (k - 1) div 100 + (k - 1) div 400
      + (if k mod 4 = 0 \<and> (k mod 100 \<noteq> 0 \<or> k mod 400 = 0) then 366 else 365)"
proof -
  have 1: "k div 4 = (k - 1) div 4 + (if k mod 4 = 0 then 1 else 0)" by (rule div_step) simp
  have 2: "k div 100 = (k - 1) div 100 + (if k mod 100 = 0 then 1 else 0)" by (rule div_step) simp
  have 3: "k div 400 = (k - 1) div 400 + (if k mod 400 = 0 then 1 else 0)" by (rule div_step) simp
  have 4: "k mod 100 = 0 \<Longrightarrow> k mod 4 = 0" by (rule mod_100_4)
  have 5: "k mod 400 = 0 \<Longrightarrow> k mod 100 = 0" by (rule mod_400_100)
  have 6: "k * 365 = (k - 1) * 365 + 365" by (simp add: algebra_simps)
  show ?thesis
    unfolding 1 2 3 6 using 4 5 by (cases "k mod 4 = 0"; cases "k mod 100 = 0"; cases "k mod 400 = 0") simp_all
qed


lemma int_mod_zero: "int y mod int n = 0 \<longleftrightarrow> y mod n = 0"
  by (simp flip: of_nat_mod)

lemma leap_int: "is_leap y \<longleftrightarrow> int y mod 4 = 0 \<and> (int y mod 100 \<noteq> 0 \<or> int y mod 400 = 0)"
  using int_mod_zero [of y 4] int_mod_zero [of y 100] int_mod_zero [of y 400]
  by (simp add: is_leap_def)

lemma days_before_year_Suc:
  "days_before_year (Suc y) = days_before_year y + (if is_leap y then 366 else 365)"
proof -
  have "days_before_year (Suc y) = int y * 365 + int y div 4 - int y div 100 + int y div 400"
    by (simp add: days_before_year_def Let_def)
  also have "\<dots> = (int y - 1) * 365 + (int y - 1) div 4 - (int y - 1) div 100
      + (int y - 1) div 400 + (if is_leap y then 366 else 365)"
    unfolding leap_int by (rule year_step)
  also have "\<dots> = days_before_year y + (if is_leap y then 366 else 365)"
    by (simp only: days_before_year_def Let_def)
  finally show ?thesis .
qed

lemma days_before_year_mono: "y \<le> y' \<Longrightarrow> days_before_year y \<le> days_before_year y'"
proof (induction y')
  case 0
  then show ?case by simp
next
  case (Suc k)
  show ?case
  proof (cases "y = Suc k")
    case True
    then show ?thesis by simp
  next
    case False
    with Suc.prems have "y \<le> k" by simp
    then have "days_before_year y \<le> days_before_year k" by (rule Suc.IH)
    also have "\<dots> \<le> days_before_year (Suc k)" by (simp add: days_before_year_Suc)
    finally show ?thesis .
  qed
qed

lemma toordinal_less:
  assumes a: "valid_date a" and b: "valid_date b"
    and lt: "key_less [year a, month a, day a] [year b, month b, day b]"
  shows "toordinal a < toordinal b"
proof -
  from lt consider (y) "year a < year b"
    | (m) "year a = year b" "month a < month b"
    | (d) "year a = year b" "month a = month b" "day a < day b"
    by auto
  then show ?thesis
  proof cases
    case y
    have "toordinal a \<le> days_before_year (year a) + (if is_leap (year a) then 366 else 365)"
      using day_of_year_bound [of "month a" "day a" "year a"] a
      by (simp add: toordinal_def valid_date_def)
    also have "\<dots> = days_before_year (Suc (year a))" by (simp add: days_before_year_Suc)
    also have "\<dots> \<le> days_before_year (year b)"
      using y by (intro days_before_year_mono) simp
    also have "\<dots> < toordinal b"
    proof -
      have "0 \<le> days_before_month (year b) (month b)"
        using days_before_month_mono [of 1 "month b" "year b"] b
        by (simp add: valid_date_def days_before_month_def)
      then show ?thesis using b by (simp add: toordinal_def valid_date_def)
    qed
    finally show ?thesis .
  next
    case m
    from a m b have lt12: "month a < 12" and ge1: "1 \<le> month a" by (simp_all add: valid_date_def)
    have "days_before_month (year a) (month a) + int (day a)
        \<le> days_before_month (year a) (Suc (month a))"
      using days_before_month_step [OF ge1 lt12, of "year a"] a by (simp add: valid_date_def)
    also have "\<dots> \<le> days_before_month (year a) (month b)"
      using m b by (intro days_before_month_mono) (simp_all add: valid_date_def)
    also have "\<dots> < days_before_month (year a) (month b) + int (day b)"
      using b by (simp add: valid_date_def)
    finally show ?thesis using m by (simp add: toordinal_def)
  next
    case d
    then show ?thesis by (simp add: toordinal_def)
  qed
qed

lemma seconds_of_day_bound:
  assumes "valid_time t"
  shows "int (second t + minute t * 60 + hour t * 3600) < 86400"
  using assms by (simp add: valid_time_def)

lemma timestamp_less:
  assumes a: "valid_datetime a" and b: "valid_datetime b" and lt: "datetime_less a b"
  shows "timestamp_us a < timestamp_us b"
proof -
  define sa where "sa = int (second (dt_time a) + minute (dt_time a) * 60 + hour (dt_time a) * 3600)"
  define sb where "sb = int (second (dt_time b) + minute (dt_time b) * 60 + hour (dt_time b) * 3600)"
  define ua where "ua = int (microsecond (dt_time a))"
  define ub where "ub = int (microsecond (dt_time b))"
  have ta: "timestamp_us a = (toordinal (dt_date a) * 86400 + sa) * 1000000 + ua"
    and tb: "timestamp_us b = (toordinal (dt_date b) * 86400 + sb) * 1000000 + ub"
    by (simp_all add: timestamp_us_def sa_def sb_def ua_def ub_def)
  from a b have bounds: "0 \<le> sa" "sa < 86400" "0 \<le> sb" "sb < 86400"
      "0 \<le> ua" "ua < 1000000" "0 \<le> ub" "ub < 1000000"
    by (simp_all add: valid_datetime_def valid_time_def sa_def sb_def ua_def ub_def)
  from lt consider (date) "key_less [year (dt_date a), month (dt_date a), day (dt_date a)]
        [year (dt_date b), month (dt_date b), day (dt_date b)]"
    | (time) "dt_date a = dt_date b"
        "key_less [hour (dt_time a), minute (dt_time a), second (dt_time a), microsecond (dt_time a)]
          [hour (dt_time b), minute (dt_time b), second (dt_time b), microsecond (dt_time b)]"
    by (auto simp: datetime_less_def datetime_key_def)
  then show ?thesis
  proof cases
    case date
    then have "toordinal (dt_date a) < toordinal (dt_date b)"
      using a b by (intro toordinal_less) (simp_all add: valid_datetime_def)
    then have "toordinal (dt_date a) + 1 \<le> toordinal (dt_date b)" by simp
    with bounds show ?thesis unfolding ta tb by simp
  next
    case time
    from time(2) have "sa < sb \<or> (sa = sb \<and> ua < ub)"
      using a b
      by (auto simp: sa_def sb_def ua_def ub_def valid_datetime_def valid_time_def)
    with bounds time(1) show ?thesis unfolding ta tb by auto
  qed
qed



section \<open>The duration calculator: facts\<close>

lemma datetime_sub_timestamp: "datetime_sub a b = timestamp_us a - timestamp_us b"
  by (simp add: datetime_sub_def timestamp_us_def Let_def algebra_simps)

lemma total_minutes_elapsed: "total_seconds (datetime_sub e s) / 60 = elapsed_minutes s e"
  by (simp add: total_seconds_def datetime_sub_timestamp elapsed_minutes_def)

lemma int_of_float_of_int: "int_of_float (of_int k) = k"
  by (simp add: int_of_float_def)

lemma floor_div_60: "\<lfloor>x / 60\<rfloor> = \<lfloor>x\<rfloor> div 60" for x :: real
  using floor_divide_real_eq_div [of 60 x] by simp

lemma divmod_float_hours: "int_of_float (fst (divmod_float x 60)) = \<lfloor>x\<rfloor> div 60"
  by (simp add: divmod_float_def int_of_float_of_int floor_div_60)

lemma divmod_float_minutes: "int_of_float (snd (divmod_float x 60)) = \<lfloor>x\<rfloor> mod 60"
proof -
  define q where "q = \<lfloor>x\<rfloor> div 60"
  define r where "r = x - of_int (q * 60)"
  have "of_int \<lfloor>x / 60\<rfloor> \<le> x / 60" by (rule of_int_floor_le)
  then have "0 \<le> r" by (simp add: r_def q_def floor_div_60)
  then have "int_of_float r = \<lfloor>r\<rfloor>" by (simp add: int_of_float_def)
  also have "\<dots> = \<lfloor>x\<rfloor> - q * 60" unfolding r_def by (rule floor_diff_of_int)
  also have "\<dots> = \<lfloor>x\<rfloor> mod 60" by (simp add: q_def minus_div_mult_eq_mod)
  finally show ?thesis by (simp add: divmod_float_def floor_div_60 r_def q_def)
qed

lemma floor_minutes: "\<lfloor>x - 60 * of_int \<lfloor>x / 60\<rfloor>\<rfloor> = \<lfloor>x\<rfloor> mod 60" for x :: real
proof -
  have "x - 60 * of_int \<lfloor>x / 60\<rfloor> = x - of_int (\<lfloor>x\<rfloor> div 60 * 60)"
    by (simp add: floor_div_60)
  then have "\<lfloor>x - 60 * of_int \<lfloor>x / 60\<rfloor>\<rfloor> = \<lfloor>x\<rfloor> - \<lfloor>x\<rfloor> div 60 * 60"
    by (simp only: floor_diff_of_int)
  then show ?thesis by (simp add: minus_div_mult_eq_mod)
qed

lemma floor_label_div_mod:
  "floor_label x = str_int (\<lfloor>x\<rfloor> div 60) @ xiaoshi @ str_int (\<lfloor>x\<rfloor> mod 60) @ fenzhong"
  unfolding floor_label_def by (subst floor_minutes, subst floor_div_60, rule refl)

lemma calculate_duration_floor:
  "calculate_duration s e = (floor_label (elapsed_minutes s e), elapsed_minutes s e)"
proof -
  obtain h m where hm: "divmod_float (elapsed_minutes s e) 60 = (h, m)" by force
  have "int_of_float h = \<lfloor>elapsed_minutes s e\<rfloor> div 60"
    using divmod_float_hours [of "elapsed_minutes s e"] hm by simp
  moreover have "int_of_float m = \<lfloor>elapsed_minutes s e\<rfloor> mod 60"
    using divmod_float_minutes [of "elapsed_minutes s e"] hm by simp
  ultimately show ?thesis
    by (simp add: calculate_duration_def Let_def total_minutes_elapsed hm floor_label_div_mod)
qed







lemma elapsed_minutes_same_day:
  "elapsed_minutes (mk_datetime y m d h1 m1 s1) (mk_datetime y m d h2 m2 s2) =
     (real (s2 + m2 * 60 + h2 * 3600) - real (s1 + m1 * 60 + h1 * 3600)) / 60"
  by (simp add: elapsed_minutes_def timestamp_us_def mk_datetime_def field_simps)

lemma calculate_duration_negative:
  assumes "valid_datetime s" "valid_datetime e" "datetime_less e s"
  shows "snd (calculate_duration s e) < 0"
    and "\<exists>h m. fst (calculate_duration s e) = str_int h @ xiaoshi @ str_int m @ fenzhong
           \<and> h < 0 \<and> 0 \<le> m \<and> m < 60"
proof -
  have "timestamp_us e < timestamp_us s" using assms by (intro timestamp_less) 
  then have neg: "elapsed_minutes s e < 0" by (simp add: elapsed_minutes_def)
  then show "snd (calculate_duration s e) < 0" by (simp add: calculate_duration_floor)
  from neg have "\<lfloor>elapsed_minutes s e\<rfloor> < 0" by (simp add: floor_less_iff)
  then have "\<lfloor>elapsed_minutes s e\<rfloor> div 60 < 0" by (rule div_neg_pos_less0) simp
  moreover have "0 \<le> \<lfloor>elapsed_minutes s e\<rfloor> mod 60" "\<lfloor>elapsed_minutes s e\<rfloor> mod 60 < 60" by simp_all
  ultimately show "\<exists>h m. fst (calculate_duration s e) = str_int h @ xiaoshi @ str_int m @ fenzhong
           \<and> h < 0 \<and> 0 \<le> m \<and> m < 60"
    unfolding calculate_duration_floor floor_label_div_mod fst_conv by blast
qed

lemma combine_mk: "combine \<lparr>year = y, month = m, day = d\<rparr> (mk_time hh mm) = mk_datetime y m d hh mm 0"
  by (simp add: combine_def mk_time_def mk_datetime_def)

lemma datetime_less_same_day:
  "datetime_less (mk_datetime y m d h1 m1 s1) (mk_datetime y m d h2 m2 s2) \<longleftrightarrow>
     h1 < h2 \<or> (h1 = h2 \<and> (m1 < m2 \<or> (m1 = m2 \<and> s1 < s2)))"
  by (simp add: datetime_less_def datetime_key_def mk_datetime_def)


section \<open>Frames, the store and the handlers: facts\<close>

lemma position_nth:
  "distinct xs \<Longrightarrow> j < length xs \<Longrightarrow> position xs (xs ! j) = Some j"
proof (induction xs arbitrary: j)
  case Nil
  then show ?case by simp
next
  case (Cons x xs)
  show ?case
  proof (cases j)
    case 0
    then show ?thesis by simp
  next
    case (Suc k)
    with Cons.prems have "xs ! k \<in> set xs" "x \<notin> set xs" by simp_all
    then have "x \<noteq> xs ! k" by blast
    with Cons Suc show ?thesis by simp
  qed
qed

lemma reindex_same:
  assumes "distinct cols" "length r = length cols"
  shows "map (cell_of cols r) cols = r"
proof (rule nth_equalityI)
  show "length (map (cell_of cols r) cols) = length r" using assms by simp
next
  fix j assume "j < length (map (cell_of cols r) cols)"
  then have j: "j < length cols" by simp
  then show "map (cell_of cols r) cols ! j = r ! j"
    using assms by (simp add: cell_of_def position_nth)
qed

lemma concat_same_columns:
  assumes "well_formed a" "well_formed b" "columns b = columns a"
  shows "concat_frames a b = \<lparr>columns = columns a, rows = rows a @ rows b\<rparr>"
proof -
  have f: "filter (\<lambda>c. c \<notin> set (columns a)) (columns b) = []"
    using assms(3) by simp
  have ra: "map (\<lambda>r. map (cell_of (columns a) r) (columns a)) (rows a) = rows a"
    using assms(1) by (intro map_idI reindex_same) (simp_all add: well_formed_def)
  have rb: "map (\<lambda>r. map (cell_of (columns b) r) (columns a)) (rows b) = rows b"
    using assms(2,3) by (intro map_idI) (simp add: well_formed_def reindex_same)
  show ?thesis
    unfolding concat_frames_def Let_def f by (simp add: ra rb)
qed

lemma submit_end_before_start:
  assumes "form_date f = Some d" "form_start_time f = Some s" "form_end_time f = Some e"
    and "datetime_less (combine d e) (combine d s)"
  shows "submit f st = \<lparr>shown = Shown End_before_start, stored = st, calls = []\<rparr>"
  using assms by (simp add: submit_def Let_def)

lemma well_formed_single:
  "distinct cs \<Longrightarrow> length r = length cs \<Longrightarrow> well_formed \<lparr>columns = cs, rows = [r]\<rparr>"
  by (simp add: well_formed_def)

lemma distinct_columns_copy: "distinct columns_copy" "length columns_copy = 7"
  by (simp_all add: columns_copy_def ascii_def)


lemma submit_copy_appends:
  assumes "load_data_copy st = Inr data" "well_formed data" "columns data = columns_copy"
  shows "submit_copy f st =
     \<lparr>shown = Shown Record_added,
      stored = save_data \<lparr>columns = columns_copy, rows = rows data @
       [[CDate (copy_date f),
         CStr (strftime_minutes (combine (copy_date f) (copy_start_time f))),
         CStr (strftime_minutes (combine (copy_date f) (copy_end_time f))),
         CStr (fst (calculate_duration (combine (copy_date f) (copy_start_time f))
            (combine (copy_date f) (copy_end_time f)))),
         CInt (copy_severity f), CStr (copy_remarks f),
         CStr (if copy_location f \<noteq> [] then py_join comma_blank (copy_location f) else not_chosen)]]\<rparr>,
      calls = [(combine (copy_date f) (copy_start_time f), combine (copy_date f) (copy_end_time f))]\<rparr>"
proof -
  obtain label tm where cd: "calculate_duration (combine (copy_date f) (copy_start_time f))
            (combine (copy_date f) (copy_end_time f)) = (label, tm)" by force
  let ?new = "\<lparr>columns = columns_copy, rows =
       [[CDate (copy_date f),
         CStr (strftime_minutes (combine (copy_date f) (copy_start_time f))),
         CStr (strftime_minutes (combine (copy_date f) (copy_end_time f))),
         CStr label, CInt (copy_severity f), CStr (copy_remarks f),
         CStr (if copy_location f \<noteq> [] then py_join comma_blank (copy_location f) else not_chosen)]]\<rparr>"
  have wf: "well_formed ?new"
    by (rule well_formed_single) (simp_all add: distinct_columns_copy)
  have "concat_frames data ?new = \<lparr>columns = columns data, rows = rows data @ rows ?new\<rparr>"
    using assms(2) wf by (rule concat_same_columns) (simp add: assms(3))
  then show ?thesis
    by (simp add: submit_copy_def Let_def cd assms(1,3))
qed

lemma load_data_copy_absent: "load_data_copy None = Inr (empty_frame columns_copy)"
  by (simp add: load_data_copy_def)

lemma load_data_absent: "load_data None = Inr (empty_frame canonical_columns)"
  by (simp add: load_data_def)

lemma well_formed_empty_frame: "distinct cs \<Longrightarrow> well_formed (empty_frame cs)"
  by (simp add: well_formed_def empty_frame_def)

lemma drop_row_valid:
  assumes "0 \<le> i" "i < int (length (rows data))"
  shows "drop_row data i = Inr (data\<lparr>rows := take (nat i) (rows data) @ drop (Suc (nat i)) (rows data)\<rparr>)"
  using assms by (simp add: drop_row_def)




section \<open>The claims about the duration calculator\<close>











section \<open>Evaluation of the examples\<close>

lemma digits_small: "n < 10 \<Longrightarrow> digits n = [48 + n]"
  by (simp add: digits.simps)

lemma str_examples:
  "str_int (- 2) = [45, 50]" "str_int 30 = [51, 48]" "str_int (- 1) = [45, 49]" "str_int 0 = [48]"
  by (simp_all add: str_int_def digits.simps)

lemma valid_examples:
  "valid_datetime (mk_datetime 2024 1 1 10 30 0)" "valid_datetime (mk_datetime 2024 1 1 9 0 0)"
  by (simp_all add: valid_datetime_def valid_date_def valid_time_def mk_datetime_def
      days_in_month_def)

lemma strftime_examples:
  "strftime_minutes (mk_datetime 2024 1 1 10 30 0) = ascii ''2024-01-01 10:30''"
  "strftime_minutes (mk_datetime 2024 1 1 9 0 0) = ascii ''2024-01-01 09:00''"
  "strftime_minutes (mk_datetime 2024 1 1 10 0 0) = ascii ''2024-01-01 10:00''"
  "isoformat \<lparr>year = 2024, month = 1, day = 1\<rparr> = ascii ''2024-01-01''"
  by (simp_all add: strftime_minutes_def isoformat_def zfill_def digits.simps mk_datetime_def
      ascii_def)

lemmas field_eval = read_column_def is_na_def na_values_def ascii_def int_field_def signed_def
  trim_def is_blank_def unsigned_int_def is_digit_def float_field_def unsigned_decimal_def
  bool_field_def digits_number_def






text \<open>
  Claim C10. When the end is before the start, the calculator still returns: the total
  minutes are negative, and the label has a negative number of hours before a number of
  minutes from 0 to 59; for minus 90 minutes the label reads minus 2 hours 30 minutes.
  The handler of the copy compares nothing: on every submission it appends the record,
  with that label, to the table it loaded and saves the table.
\<close>

theorem negative_duration_persisted:
  "(valid_datetime start_time \<and> valid_datetime end_time \<and> datetime_less end_time start_time \<longrightarrow>
      snd (calculate_duration start_time end_time) < 0 \<and>
      (\<exists>h m. fst (calculate_duration start_time end_time)
                 = str_int h @ xiaoshi @ str_int m @ fenzhong \<and> h < 0 \<and> 0 \<le> m \<and> m < 60)) \<and>
   calculate_duration (mk_datetime 2024 1 1 10 30 0) (mk_datetime 2024 1 1 9 0 0)
     = ([45, 50] @ xiaoshi @ [51, 48] @ fenzhong, - 90) \<and>
   (load_data_copy st = Inr data \<and> well_formed data \<and> columns data = columns_copy \<longrightarrow>
      submit_copy f st =
        \<lparr>shown = Shown Record_added,
         stored = save_data \<lparr>columns = columns_copy, rows = rows data @
           [[CDate (copy_date f),
             CStr (strftime_minutes (combine (copy_date f) (copy_start_time f))),
             CStr (strftime_minutes (combine (copy_date f) (copy_end_time f))),
             CStr (fst (calculate_duration (combine (copy_date f) (copy_start_time f))
                (combine (copy_date f) (copy_end_time f)))),
             CInt (copy_severity f), CStr (copy_remarks f),
             CStr (if copy_location f \<noteq> [] then py_join comma_blank (copy_location f)
                   else not_chosen)]]\<rparr>,
         calls = [(combine (copy_date f) (copy_start_time f),
                   combine (copy_date f) (copy_end_time f))]\<rparr>)"
proof (intro conjI impI)
  assume a: "valid_datetime start_time \<and> valid_datetime end_time \<and> datetime_less end_time start_time"
  then show "snd (calculate_duration start_time end_time) < 0"
    using calculate_duration_negative(1) by blast
  from a show "\<exists>h m. fst (calculate_duration start_time end_time)
                 = str_int h @ xiaoshi @ str_int m @ fenzhong \<and> h < 0 \<and> 0 \<le> m \<and> m < 60"
    using calculate_duration_negative(2) by blast
next
  have "\<lfloor>- 90 / 60 :: real\<rfloor> = - 2" by simp
  moreover have "\<lfloor>- 90 - 60 * real_of_int (- 2)\<rfloor> = 30" by simp
  ultimately show "calculate_duration (mk_datetime 2024 1 1 10 30 0) (mk_datetime 2024 1 1 9 0 0)
     = ([45, 50] @ xiaoshi @ [51, 48] @ fenzhong, - 90)"
    by (simp add: calculate_duration_floor elapsed_minutes_same_day floor_label_def str_examples)
next
  assume "load_data_copy st = Inr data \<and> well_formed data \<and> columns data = columns_copy"
  then show "submit_copy f st =
        \<lparr>shown = Shown Record_added,
         stored = save_data \<lparr>columns = columns_copy, rows = rows data @
           [[CDate (copy_date f),
             CStr (strftime_minutes (combine (copy_date f) (copy_start_time f))),
             CStr (strftime_minutes (combine (copy_date f) (copy_end_time f))),
             CStr (fst (calculate_duration (combine (copy_date f) (copy_start_time f))
                (combine (copy_date f) (copy_end_time f)))),
             CInt (copy_severity f), CStr (copy_remarks f),
             CStr (if copy_location f \<noteq> [] then py_join comma_blank (copy_location f)
                   else not_chosen)]]\<rparr>,
         calls = [(combine (copy_date f) (copy_start_time f),
                   combine (copy_date f) (copy_end_time f))]\<rparr>"
    using submit_copy_appends by blast
qed


text \<open>
  The hypotheses hold for a start at 10:30 and an end at 09:00 with no file yet: the file
  written holds the one record, with the negative label.
\<close>

theorem negative_duration_persisted_witness:
  "valid_datetime (mk_datetime 2024 1 1 10 30 0) \<and> valid_datetime (mk_datetime 2024 1 1 9 0 0) \<and>
   datetime_less (mk_datetime 2024 1 1 9 0 0) (mk_datetime 2024 1 1 10 30 0) \<and>
   snd (calculate_duration (mk_datetime 2024 1 1 10 30 0) (mk_datetime 2024 1 1 9 0 0)) < 0 \<and>
   load_data_copy None = Inr (empty_frame columns_copy) \<and>
   well_formed (empty_frame columns_copy) \<and>
   stored (submit_copy (example_form_copy 10 30 9 0) None) =
     Some negative_file"
proof -
  let ?s = "mk_datetime 2024 1 1 10 30 0" and ?e = "mk_datetime 2024 1 1 9 0 0"
  have v: "valid_datetime ?s \<and> valid_datetime ?e \<and> datetime_less ?e ?s"
    using valid_examples by (simp add: datetime_less_same_day)
  have l: "load_data_copy None = Inr (empty_frame columns_copy) \<and>
      well_formed (empty_frame columns_copy) \<and> columns (empty_frame columns_copy) = columns_copy"
    by (simp add: load_data_copy_absent well_formed_def distinct_columns_copy empty_frame_def)
  note t = negative_duration_persisted
    [of ?s ?e None "empty_frame columns_copy" "example_form_copy 10 30 9 0"]
  from t v have 1: "snd (calculate_duration ?s ?e) < 0" by blast
  from t have 2: "calculate_duration ?s ?e = ([45, 50] @ xiaoshi @ [51, 48] @ fenzhong, - 90)"
    by blast
  from t l have 3: "stored (submit_copy (example_form_copy 10 30 9 0) None) =
      save_data \<lparr>columns = columns_copy, rows = rows (empty_frame columns_copy) @
           [[CDate (copy_date (example_form_copy 10 30 9 0)),
             CStr (strftime_minutes (combine (copy_date (example_form_copy 10 30 9 0)) (copy_start_time (example_form_copy 10 30 9 0)))),
             CStr (strftime_minutes (combine (copy_date (example_form_copy 10 30 9 0)) (copy_end_time (example_form_copy 10 30 9 0)))),
             CStr (fst (calculate_duration (combine (copy_date (example_form_copy 10 30 9 0)) (copy_start_time (example_form_copy 10 30 9 0)))
                (combine (copy_date (example_form_copy 10 30 9 0)) (copy_end_time (example_form_copy 10 30 9 0))))),
             CInt (copy_severity (example_form_copy 10 30 9 0)), CStr (copy_remarks (example_form_copy 10 30 9 0)),
             CStr (if copy_location (example_form_copy 10 30 9 0) \<noteq> [] then py_join comma_blank (copy_location (example_form_copy 10 30 9 0))
                   else not_chosen)]]\<rparr>"
    by simp
  have c: "combine (copy_date (example_form_copy 10 30 9 0)) (copy_start_time (example_form_copy 10 30 9 0)) = ?s"
    "combine (copy_date (example_form_copy 10 30 9 0)) (copy_end_time (example_form_copy 10 30 9 0)) = ?e"
    by (simp_all add: example_form_copy_def combine_mk)
  have 4: "stored (submit_copy (example_form_copy 10 30 9 0) None) =
     Some negative_file"
    unfolding 3 c 2 using strftime_examples
    by (simp add: save_data_def to_csv_def empty_frame_def example_form_copy_def
        str_int_def digits_small negative_file_def)
  from v 1 l 4 show ?thesis by simp
qed



section \<open>The claims about the store and the handlers\<close>

text \<open>
  Claim C2. In the main program a submission whose end is before its start is answered
  with the message that the end may not be before the start; the file stays as it was and
  the duration calculator is not called. The handler of the copy does not do this: for a
  start at 10:00 and an end at 09:00 it calls the calculator, reports the record as
  added and writes it to the file.
\<close>

theorem create_end_before_start:
  "(form_date f = Some d \<and> form_start_time f = Some s \<and> form_end_time f = Some e \<and>
    datetime_less (combine d e) (combine d s) \<longrightarrow>
      submit f st = \<lparr>shown = Shown End_before_start, stored = st, calls = []\<rparr>) \<and>
   submit_copy (example_form_copy 10 0 9 0) None =
     \<lparr>shown = Shown Record_added,
      stored = Some \<lparr>header = columns_copy,
        body = [[ascii ''2024-01-01'', ascii ''2024-01-01 10:00'', ascii ''2024-01-01 09:00'',
                 [45, 49] @ xiaoshi @ [48] @ fenzhong, [51], [], [24038, 20391]]]\<rparr>,
      calls = [(mk_datetime 2024 1 1 10 0 0, mk_datetime 2024 1 1 9 0 0)]\<rparr>"
proof (intro conjI impI)
  assume "form_date f = Some d \<and> form_start_time f = Some s \<and> form_end_time f = Some e \<and>
    datetime_less (combine d e) (combine d s)"
  then show "submit f st = \<lparr>shown = Shown End_before_start, stored = st, calls = []\<rparr>"
    using submit_end_before_start by blast
next
  let ?f = "example_form_copy 10 0 9 0"
  have c: "combine (copy_date ?f) (copy_start_time ?f) = mk_datetime 2024 1 1 10 0 0"
    "combine (copy_date ?f) (copy_end_time ?f) = mk_datetime 2024 1 1 9 0 0"
    by (simp_all add: example_form_copy_def combine_mk)
  have d: "fst (calculate_duration (mk_datetime 2024 1 1 10 0 0) (mk_datetime 2024 1 1 9 0 0))
      = [45, 49] @ xiaoshi @ [48] @ fenzhong"
    by (simp add: calculate_duration_floor elapsed_minutes_same_day floor_label_div_mod
        str_examples)
  have "submit_copy ?f None = \<lparr>shown = Shown Record_added,
      stored = save_data \<lparr>columns = columns_copy, rows = rows (empty_frame columns_copy) @
       [[CDate (copy_date ?f),
         CStr (strftime_minutes (combine (copy_date ?f) (copy_start_time ?f))),
         CStr (strftime_minutes (combine (copy_date ?f) (copy_end_time ?f))),
         CStr (fst (calculate_duration (combine (copy_date ?f) (copy_start_time ?f))
            (combine (copy_date ?f) (copy_end_time ?f)))),
         CInt (copy_severity ?f), CStr (copy_remarks ?f),
         CStr (if copy_location ?f \<noteq> [] then py_join comma_blank (copy_location ?f) else not_chosen)]]\<rparr>,
      calls = [(combine (copy_date ?f) (copy_start_time ?f), combine (copy_date ?f) (copy_end_time ?f))]\<rparr>"
    by (rule submit_copy_appends)
      (simp_all add: load_data_copy_absent well_formed_def distinct_columns_copy empty_frame_def)
  then show "submit_copy ?f None =
     \<lparr>shown = Shown Record_added,
      stored = Some \<lparr>header = columns_copy,
        body = [[ascii ''2024-01-01'', ascii ''2024-01-01 10:00'', ascii ''2024-01-01 09:00'',
                 [45, 49] @ xiaoshi @ [48] @ fenzhong, [51], [], [24038, 20391]]]\<rparr>,
      calls = [(mk_datetime 2024 1 1 10 0 0, mk_datetime 2024 1 1 9 0 0)]\<rparr>"
    unfolding c d using strftime_examples
    by (simp add: save_data_def to_csv_def empty_frame_def example_form_copy_def
        str_int_def digits_small)
qed


text \<open>The main program on the same submission, with no file yet: rejected, still no file.\<close>

theorem create_end_before_start_witness:
  "form_date (example_form 10 0 9 0) = Some \<lparr>year = 2024, month = 1, day = 1\<rparr> \<and>
   form_start_time (example_form 10 0 9 0) = Some (mk_time 10 0) \<and>
   form_end_time (example_form 10 0 9 0) = Some (mk_time 9 0) \<and>
   datetime_less (combine \<lparr>year = 2024, month = 1, day = 1\<rparr> (mk_time 9 0))
     (combine \<lparr>year = 2024, month = 1, day = 1\<rparr> (mk_time 10 0)) \<and>
   submit (example_form 10 0 9 0) None = \<lparr>shown = Shown End_before_start, stored = None, calls = []\<rparr>"
proof -
  have h: "form_date (example_form 10 0 9 0) = Some \<lparr>year = 2024, month = 1, day = 1\<rparr> \<and>
      form_start_time (example_form 10 0 9 0) = Some (mk_time 10 0) \<and>
      form_end_time (example_form 10 0 9 0) = Some (mk_time 9 0) \<and>
      datetime_less (combine \<lparr>year = 2024, month = 1, day = 1\<rparr> (mk_time 9 0))
        (combine \<lparr>year = 2024, month = 1, day = 1\<rparr> (mk_time 10 0))"
    by (simp add: example_form_def combine_mk datetime_less_same_day)
  with create_end_before_start
    [of "example_form 10 0 9 0" "\<lparr>year = 2024, month = 1, day = 1\<rparr>" "mk_time 10 0" "mk_time 9 0" None]
  show ?thesis by blast
qed


text \<open>
  Claim C8, as amended. With no file, loading raises nothing and returns a table without
  rows: in the main program with the eight columns, Total Minutes last; in the copy with
  the first seven of them.
\<close>

theorem load_missing_file:
  "load_data None =
     Inr \<lparr>columns = map ascii [''Date'', ''Start Time'', ''End Time'', ''Duration'', ''Severity'',
             ''Remarks'', ''Location'', ''Total Minutes''], rows = []\<rparr> \<and>
   load_data_copy None =
     Inr \<lparr>columns = map ascii [''Date'', ''Start Time'', ''End Time'', ''Duration'', ''Severity'',
             ''Remarks'', ''Location''], rows = []\<rparr>"
  by (simp add: load_data_def load_data_copy_def empty_frame_def canonical_columns_def
      columns_copy_def)


text \<open>
  Claim C8 as it is written fails for the copy: its empty table does not have the eight
  columns.
\<close>

theorem load_missing_file_counterexample:
  "load_data_copy None \<noteq>
     Inr \<lparr>columns = map ascii [''Date'', ''Start Time'', ''End Time'', ''Duration'', ''Severity'',
             ''Remarks'', ''Location'', ''Total Minutes''], rows = []\<rparr>"
  by (simp add: load_data_copy_def empty_frame_def columns_copy_def)








section \<open>The charts: facts\<close>

lemma apply_cells_Inr:
  "apply_cells f xs = Inr ys \<longleftrightarrow>
     length ys = length xs \<and> (\<forall>k < length xs. f (xs ! k) = Inr (ys ! k))"
proof (induction xs arbitrary: ys)
  case Nil
  then show ?case by auto
next
  case (Cons x xs)
  show ?case
  proof (cases "f x")
    case (Inl e)
    then show ?thesis by (auto simp: bind_err_def)
  next
    case (Inr y)
    show ?thesis
    proof (cases "apply_cells f xs")
      case (Inl e)
      with Cons.IH [of "tl ys"] have "\<not> (length (tl ys) = length xs \<and> (\<forall>k<length xs. f (xs ! k) = Inr (tl ys ! k)))"
        by simp
      then have "\<not> (length ys = length (x # xs) \<and> (\<forall>k<length (x # xs). f ((x # xs) ! k) = Inr (ys ! k)))"
        by (cases ys) (auto simp: nth_Cons split: nat.splits)
      with Inl Inr show ?thesis by (simp add: bind_err_def)
    next
      case r: (Inr zs)
      with Cons.IH [of zs] have zs: "length zs = length xs" "\<forall>k<length xs. f (xs ! k) = Inr (zs ! k)"
        by simp_all
      have "ys = y # zs \<longleftrightarrow> length ys = length (x # xs) \<and> (\<forall>k<length (x # xs). f ((x # xs) ! k) = Inr (ys ! k))"
      proof
        assume "ys = y # zs"
        with zs Inr show "length ys = length (x # xs) \<and> (\<forall>k<length (x # xs). f ((x # xs) ! k) = Inr (ys ! k))"
          by (auto simp: nth_Cons split: nat.splits)
      next
        assume a: "length ys = length (x # xs) \<and> (\<forall>k<length (x # xs). f ((x # xs) ! k) = Inr (ys ! k))"
        then obtain y' ys' where ys: "ys = y' # ys'" by (cases ys) auto
        from a ys have "f x = Inr y'" by auto
        with Inr have y: "y' = y" by simp
        from a ys have "length ys' = length xs" "\<forall>k<length xs. f (xs ! k) = Inr (ys' ! k)"
          by auto
        with Cons.IH [of ys'] r have "ys' = zs" by simp
        with ys y show "ys = y # zs" by simp
      qed
      with Inr r show ?thesis by (simp add: bind_err_def) blast
    qed
  qed
qed

lemma bin_labels_nth:
  "bin_labels ! 0 = ascii ''0-30'' @ fenzhong" "bin_labels ! 1 = ascii ''30-60'' @ fenzhong"
  "bin_labels ! 2 = ascii ''60-120'' @ fenzhong"
  "bin_labels ! 3 = ascii ''120'' @ fenzhong @ [20197, 19978]"
  by (simp_all add: bin_labels_def)

lemma bin_labels_distinct: "distinct bin_labels" "length bin_labels = 4"
  by (simp_all add: bin_labels_def ascii_def fenzhong_def)

lemma cut_label_interval:
  "k < 4 \<Longrightarrow> cut_label v = Some (bin_labels ! k) \<longleftrightarrow> bin_interval k v"
proof -
  assume "k < 4"
  then have "k = 0 \<or> k = 1 \<or> k = 2 \<or> k = 3" by arith
  moreover have "bin_labels ! 0 \<noteq> bin_labels ! 1" "bin_labels ! 0 \<noteq> bin_labels ! 2"
    "bin_labels ! 0 \<noteq> bin_labels ! 3" "bin_labels ! 1 \<noteq> bin_labels ! 2"
    "bin_labels ! 1 \<noteq> bin_labels ! 3" "bin_labels ! 2 \<noteq> bin_labels ! 3"
    by (simp_all add: bin_labels_def ascii_def fenzhong_def)
  ultimately show ?thesis
    by (auto simp: cut_label_def bin_interval_def)
qed

lemma count_list_map_filter:
  "count_list (map f xs) y = length (filter (\<lambda>x. f x = y) xs)"
  by (induction xs) auto

lemma bin_interval_unique: "0 \<le> v \<Longrightarrow> \<exists>!k. k < 4 \<and> bin_interval k v"
proof -
  assume v: "0 \<le> v"
  then consider "v < 30" | "30 \<le> v" "v < 60" | "60 \<le> v" "v < 120" | "120 \<le> v" by linarith
  then show ?thesis
  proof cases
    case 1
    with v show ?thesis by (intro ex1I [of _ 0]) (auto simp: bin_interval_def)
  next
    case 2
    then show ?thesis by (intro ex1I [of _ 1]) (auto simp: bin_interval_def)
  next
    case 3
    then show ?thesis by (intro ex1I [of _ 2]) (auto simp: bin_interval_def)
  next
    case 4
    then show ?thesis by (intro ex1I [of _ 3]) (auto simp: bin_interval_def)
  qed
qed

lemma cut_label_negative: "v < 0 \<Longrightarrow> cut_label v = None"
  by (simp add: cut_label_def)

lemma duration_chart_counts:
  assumes "column data (ascii ''Duration'') = Inr cells"
    and "apply_cells cell_duration_minutes cells = Inr mins"
  shows "duration_chart data = Chart (value_counts_categories bin_labels (map cut_label mins))"
proof -
  from assms(1) have "ascii ''Duration'' \<in> set (columns data)"
    by (auto simp: column_def split: if_splits)
  with assms show ?thesis
    by (simp add: duration_chart_def report_of_def)
qed

lemma categories_count:
  assumes "k < 4"
  shows "value_counts_categories bin_labels (map cut_label mins) (bin_labels ! k)
     = Some (length (filter (bin_interval k) mins))"
proof -
  have "bin_labels ! k \<in> set bin_labels" using assms bin_labels_distinct(2) by simp
  then show ?thesis
    using assms by (simp add: value_counts_categories_def count_list_map_filter cut_label_interval)
qed


lemma column_length: "column data c = Inr cells \<Longrightarrow> length cells = length (rows data)"
  by (auto simp: column_def split: if_splits)

lemma canonical_position:
  "position canonical_columns (ascii ''Date'') = Some 0"
  "position canonical_columns (ascii ''Duration'') = Some 3"
  "position canonical_columns (ascii ''Severity'') = Some 4"
  "position canonical_columns (ascii ''Location'') = Some 6"
  "ascii ''Date'' \<in> set canonical_columns" "ascii ''Duration'' \<in> set canonical_columns"
  "ascii ''Location'' \<in> set canonical_columns"
  by (simp_all add: canonical_columns_def ascii_def)

lemma copy_position:
  "position columns_copy (ascii ''Duration'') = Some 3"
  "ascii ''Duration'' \<in> set columns_copy"
  by (simp_all add: columns_copy_def ascii_def)

lemma example_durations:
  "duration_minutes ([49] @ xiaoshi @ [51, 48] @ fenzhong) = Inr 90"
  "duration_minutes ([48] @ xiaoshi @ [50, 48] @ fenzhong) = Inr 20"
  "duration_minutes ([51] @ xiaoshi @ [48] @ fenzhong) = Inr 180"
  "duration_minutes ([45, 50] @ xiaoshi @ [51, 48] @ fenzhong) = Inr (- 90)"
proof -
  have s: "str_int 1 = [49]" "str_int 30 = [51, 48]" "str_int 0 = [48]" "str_int 20 = [50, 48]"
    "str_int 3 = [51]" "str_int (- 2) = [45, 50]"
    by (simp_all add: str_int_def digits.simps)
  show "duration_minutes ([49] @ xiaoshi @ [51, 48] @ fenzhong) = Inr 90"
    using duration_minutes_label [of 1 30] by (simp add: s)
  show "duration_minutes ([48] @ xiaoshi @ [50, 48] @ fenzhong) = Inr 20"
    using duration_minutes_label [of 0 20] by (simp add: s)
  show "duration_minutes ([51] @ xiaoshi @ [48] @ fenzhong) = Inr 180"
    using duration_minutes_label [of 3 0] by (simp add: s)
  show "duration_minutes ([45, 50] @ xiaoshi @ [51, 48] @ fenzhong) = Inr (- 90)"
    using duration_minutes_label [of "- 2" 30] by (simp add: s)
qed

lemma example_duration_column:
  "column example_frame (ascii ''Duration'') =
     Inr [CStr ([49] @ xiaoshi @ [51, 48] @ fenzhong), CStr ([48] @ xiaoshi @ [50, 48] @ fenzhong),
          CStr ([51] @ xiaoshi @ [48] @ fenzhong)]"
  by (simp add: column_def example_frame_def example_row_def cell_of_def canonical_position)

lemma example_duration_minutes:
  "apply_cells cell_duration_minutes
     [CStr ([49] @ xiaoshi @ [51, 48] @ fenzhong), CStr ([48] @ xiaoshi @ [50, 48] @ fenzhong),
      CStr ([51] @ xiaoshi @ [48] @ fenzhong)] = Inr [90, 20, 180]"
  using example_durations by (simp add: cell_duration_minutes_def)

lemma negative_duration_column:
  "column negative_frame (ascii ''Duration'') = Inr [CStr ([45, 50] @ xiaoshi @ [51, 48] @ fenzhong)]"
  by (simp add: column_def negative_frame_def cell_of_def copy_position)

lemma upt_7: "[0..<7] = [0, 1, 2, 3, 4, 5, 6]"
  by (simp add: upt_rec)

lemma negative_columns:
  "read_column [ascii ''2024-01-01''] = [CStr (ascii ''2024-01-01'')]"
  "read_column [ascii ''2024-01-01 10:30''] = [CStr (ascii ''2024-01-01 10:30'')]"
  "read_column [ascii ''2024-01-01 09:00''] = [CStr (ascii ''2024-01-01 09:00'')]"
  "read_column [[45, 50] @ xiaoshi @ [51, 48] @ fenzhong]
     = [CStr ([45, 50] @ xiaoshi @ [51, 48] @ fenzhong)]"
  "read_column [[51]] = [CInt 3]"
  "read_column [[]] = [CNaN]"
  "read_column [[24038, 20391]] = [CStr [24038, 20391]]"
  by (simp_all add: field_eval xiaoshi_def fenzhong_def)

lemma read_negative_file: "load_data (Some negative_file) = Inr negative_frame"
proof -
  have h: "header negative_file \<noteq> []" "length (header negative_file) = 7"
    "length (body negative_file) = 1"
    "\<not> list_ex (\<lambda>r. length (header negative_file) < length r) (body negative_file)"
    using distinct_columns_copy(2) by (auto simp: negative_file_def)
  have c: "map (\<lambda>j. read_column (map (\<lambda>r. field_of r j) (body negative_file))) [0..<7] =
     [[CStr (ascii ''2024-01-01'')], [CStr (ascii ''2024-01-01 10:30'')],
      [CStr (ascii ''2024-01-01 09:00'')], [CStr ([45, 50] @ xiaoshi @ [51, 48] @ fenzhong)],
      [CInt 3], [CNaN], [CStr [24038, 20391]]]"
    unfolding upt_7 using negative_columns by (simp add: negative_file_def field_of_def)
  have ne: "columns_copy \<noteq> []" using distinct_columns_copy(2) by auto
  show ?thesis
    unfolding load_data_def option.case read_csv_def h c
    by (simp add: rows_of_columns_def negative_frame_def negative_file_def ne)
qed


lemma split_from_nonempty: "split_from sep cur s \<noteq> []"
  by (induction sep cur s rule: split_from.induct) auto

lemma apply_cells_split:
  "apply_cells cell_split_location (map CStr texts) = Inr (map (split_from comma_blank []) texts)"
  by (induction texts) (simp_all add: cell_split_location_def py_split_def comma_blank_def)

lemma explode_nonempty:
  "\<forall>xs \<in> set xss. xs \<noteq> [] \<Longrightarrow> explode xss = map Some (concat xss)"
  by (induction xss) (simp_all add: explode_def)

lemma count_list_concat:
  "count_list (concat xss) x = sum_list (map (\<lambda>xs. count_list xs x) xss)"
  by (induction xss) simp_all

lemma count_list_Some: "count_list (map Some xs) (Some x) = count_list xs x"
  by (induction xs) simp_all

lemma value_counts_Some:
  "value_counts (map Some xs) l = (if count_list xs l = 0 then None else Some (count_list xs l))"
  by (auto simp: value_counts_def count_list_Some count_list_0_iff)

lemma location_chart_counts:
  assumes "column data (ascii ''Location'') = Inr (map CStr texts)"
  shows "location_chart data =
     Chart (value_counts (map Some (concat (map (split_from comma_blank []) texts))))"
proof -
  from assms have "ascii ''Location'' \<in> set (columns data)"
    by (auto simp: column_def split: if_splits)
  moreover have "explode (map (split_from comma_blank []) texts)
      = map Some (concat (map (split_from comma_blank []) texts))"
    by (rule explode_nonempty) (simp add: split_from_nonempty)
  ultimately show ?thesis
    using assms by (simp add: location_chart_def report_of_def apply_cells_split)
qed

lemma split_join:
  "sep = a # sep' \<Longrightarrow> labels \<noteq> [] \<Longrightarrow> \<forall>l \<in> set labels. a \<notin> set l \<Longrightarrow>
     split_from sep cur (py_join sep labels) = (cur @ hd labels) # tl labels"
proof (induction sep labels arbitrary: cur rule: py_join.induct)
  case (1 sep)
  then show ?case by simp
next
  case (2 sep x)
  then show ?case using split_from_none [of sep a sep' x cur] by simp
next
  case (3 sep x y ys)
  have "split_from sep cur (x @ sep @ py_join sep (y # ys))
      = (cur @ x) # split_from sep [] (py_join sep (y # ys))"
    using "3.prems" split_from_first [of sep a sep' x cur "py_join sep (y # ys)"] by simp
  also have "split_from sep [] (py_join sep (y # ys)) = ([] @ hd (y # ys)) # tl (y # ys)"
    using "3.prems" by (intro "3.IH") simp_all
  finally show ?case by simp
qed

lemma places_column:
  "column places_frame (ascii ''Location'') =
     Inr (map CStr [[24038, 20391] @ comma_blank @ [21491, 20391], [21491, 20391]])"
  by (simp add: column_def places_frame_def example_row_def cell_of_def canonical_position)

section \<open>The claims about the charts\<close>

text \<open>
  Claim C6, as amended. When every cell of the Duration column is a label that parses,
  the chart counts, for each of the four labels, the records whose parsed minutes lie in
  the interval of the label: from 0 to under 30, from 30 to under 60, from 60 to under
  120, and from 120 on. The label a value gets from the cut is the label of the interval
  it lies in; a value that is not negative lies in exactly one interval; a negative value
  gets no label and is counted in no bin. 90 minutes get the label of 60 to 120.
\<close>

theorem duration_chart_bins:
  "column data (ascii ''Duration'') = Inr cells \<and>
   apply_cells cell_duration_minutes cells = Inr mins \<longrightarrow>
     length mins = length (rows data) \<and>
     (\<forall>k < length mins. cell_duration_minutes (cells ! k) = Inr (mins ! k)) \<and>
     (\<exists>counts. duration_chart data = Chart counts \<and> dom counts = set bin_labels \<and>
        (\<forall>k < 4. counts (bin_labels ! k) = Some (length (filter (bin_interval k) mins)))) \<and>
     (\<forall>v. \<forall>k < 4. cut_label v = Some (bin_labels ! k) \<longleftrightarrow> bin_interval k v) \<and>
     (\<forall>v. 0 \<le> v \<longrightarrow> (\<exists>!k. k < 4 \<and> bin_interval k v)) \<and>
     (\<forall>v. v < 0 \<longrightarrow> cut_label v = None) \<and>
     cut_label 90 = Some (ascii ''60-120'' @ fenzhong)"
proof (rule impI)
  assume a: "column data (ascii ''Duration'') = Inr cells \<and>
    apply_cells cell_duration_minutes cells = Inr mins"
  then have l: "length mins = length cells"
    and n: "\<forall>k < length cells. cell_duration_minutes (cells ! k) = Inr (mins ! k)"
    by (simp_all add: apply_cells_Inr)
  from a have "length cells = length (rows data)" by (auto dest: column_length)
  with l have 1: "length mins = length (rows data)" by simp
  from l n have 2: "\<forall>k < length mins. cell_duration_minutes (cells ! k) = Inr (mins ! k)" by simp
  let ?counts = "value_counts_categories bin_labels (map cut_label mins)"
  have "duration_chart data = Chart ?counts" using a by (simp add: duration_chart_counts)
  moreover have "dom ?counts = set bin_labels"
    by (auto simp: value_counts_categories_def dom_def)
  moreover have "\<forall>k < 4. ?counts (bin_labels ! k) = Some (length (filter (bin_interval k) mins))"
    by (simp add: categories_count)
  ultimately have 3: "\<exists>counts. duration_chart data = Chart counts \<and> dom counts = set bin_labels \<and>
        (\<forall>k < 4. counts (bin_labels ! k) = Some (length (filter (bin_interval k) mins)))"
    by (intro exI [of _ ?counts] conjI)
  have 4: "\<forall>v. \<forall>k < 4. cut_label v = Some (bin_labels ! k) \<longleftrightarrow> bin_interval k v"
    by (simp add: cut_label_interval)
  have 5: "\<forall>v. 0 \<le> v \<longrightarrow> (\<exists>!k. k < 4 \<and> bin_interval k v)"
    using bin_interval_unique by blast
  have 6: "\<forall>v. v < 0 \<longrightarrow> cut_label v = None"
    by (simp add: cut_label_negative)
  have 7: "cut_label 90 = Some (ascii ''60-120'' @ fenzhong)"
    by (simp add: cut_label_def bin_labels_def)
  show "length mins = length (rows data) \<and>
     (\<forall>k < length mins. cell_duration_minutes (cells ! k) = Inr (mins ! k)) \<and>
     (\<exists>counts. duration_chart data = Chart counts \<and> dom counts = set bin_labels \<and>
        (\<forall>k < 4. counts (bin_labels ! k) = Some (length (filter (bin_interval k) mins)))) \<and>
     (\<forall>v. \<forall>k < 4. cut_label v = Some (bin_labels ! k) \<longleftrightarrow> bin_interval k v) \<and>
     (\<forall>v. 0 \<le> v \<longrightarrow> (\<exists>!k. k < 4 \<and> bin_interval k v)) \<and>
     (\<forall>v. v < 0 \<longrightarrow> cut_label v = None) \<and>
     cut_label 90 = Some (ascii ''60-120'' @ fenzhong)"
    by (intro conjI 1 2 3 4 5 6 7)
qed


text \<open>The file of three records has durations of 90, 20 and 180 minutes.\<close>

theorem duration_chart_bins_witness:
  "column example_frame (ascii ''Duration'') =
     Inr [CStr ([49] @ xiaoshi @ [51, 48] @ fenzhong), CStr ([48] @ xiaoshi @ [50, 48] @ fenzhong),
          CStr ([51] @ xiaoshi @ [48] @ fenzhong)] \<and>
   apply_cells cell_duration_minutes
     [CStr ([49] @ xiaoshi @ [51, 48] @ fenzhong), CStr ([48] @ xiaoshi @ [50, 48] @ fenzhong),
      CStr ([51] @ xiaoshi @ [48] @ fenzhong)] = Inr [90, 20, 180] \<and>
   (\<exists>counts. duration_chart example_frame = Chart counts \<and>
      map counts bin_labels = [Some 1, Some 0, Some 1, Some 1])"
proof -
  let ?cells = "[CStr ([49] @ xiaoshi @ [51, 48] @ fenzhong), CStr ([48] @ xiaoshi @ [50, 48] @ fenzhong),
        CStr ([51] @ xiaoshi @ [48] @ fenzhong)]"
  have hyp: "column example_frame (ascii ''Duration'') = Inr ?cells \<and>
      apply_cells cell_duration_minutes ?cells = Inr [90, 20, 180]"
    using example_duration_column example_duration_minutes by (rule conjI)
  note t = duration_chart_bins [of example_frame ?cells "[90, 20, 180]", THEN mp, OF hyp]
  from t have "\<exists>counts. duration_chart example_frame = Chart counts \<and> dom counts = set bin_labels \<and>
        (\<forall>k < 4. counts (bin_labels ! k) = Some (length (filter (bin_interval k) [90, 20, 180])))"
    by (elim conjE)
  then obtain counts where c: "duration_chart example_frame = Chart counts"
    "\<forall>k < 4. counts (bin_labels ! k) = Some (length (filter (bin_interval k) [90, 20, 180]))"
    by (elim exE conjE)
  have "map counts bin_labels = map (\<lambda>k. counts (bin_labels ! k)) [0, 1, 2, 3]"
    by (simp add: bin_labels_def)
  also have "\<dots> = [Some 1, Some 0, Some 1, Some 1]"
    using c(2) by (simp add: bin_interval_def)
  finally have m: "map counts bin_labels = [Some 1, Some 0, Some 1, Some 1]" .
  show ?thesis
  proof (intro conjI exI)
    show "column example_frame (ascii ''Duration'') = Inr ?cells"
      by (rule example_duration_column)
    show "apply_cells cell_duration_minutes ?cells = Inr [90, 20, 180]"
      by (rule example_duration_minutes)
    show "duration_chart example_frame = Chart counts" by (rule c(1))
    show "map counts bin_labels = [Some 1, Some 0, Some 1, Some 1]" by (rule m)
  qed
qed


text \<open>
  Claim C6 as it is written fails on a record with a negative duration, which the handler
  of the copy writes: the file of that record loads, its label parses to minus 90, the
  cut gives it no label, and every bin of the chart counts 0.
\<close>

theorem duration_chart_negative_counterexample:
  "load_data (Some negative_file) = Inr negative_frame \<and>
   column negative_frame (ascii ''Duration'') = Inr [CStr ([45, 50] @ xiaoshi @ [51, 48] @ fenzhong)] \<and>
   cell_duration_minutes (CStr ([45, 50] @ xiaoshi @ [51, 48] @ fenzhong)) = Inr (- 90) \<and>
   cut_label (- 90) = None \<and>
   duration_chart negative_frame
     = Chart (value_counts_categories bin_labels [None]) \<and>
   map (value_counts_categories bin_labels [None]) bin_labels = [Some 0, Some 0, Some 0, Some 0]"
proof -
  have m: "cell_duration_minutes (CStr ([45, 50] @ xiaoshi @ [51, 48] @ fenzhong)) = Inr (- 90)"
    using example_durations(4) by (simp add: cell_duration_minutes_def)
  have c: "cut_label (- 90) = None" by (simp add: cut_label_def)
  have a: "apply_cells cell_duration_minutes [CStr ([45, 50] @ xiaoshi @ [51, 48] @ fenzhong)]
      = Inr [- 90]"
    using m by simp
  have d: "duration_chart negative_frame = Chart (value_counts_categories bin_labels [None])"
    using duration_chart_counts [OF negative_duration_column a] c by simp
  have z: "map (value_counts_categories bin_labels [None]) bin_labels
      = [Some 0, Some 0, Some 0, Some 0]"
    by (simp add: value_counts_categories_def bin_labels_def)
  from read_negative_file negative_duration_column m c d z show ?thesis by simp
qed


text \<open>
  Claim C7. When every cell of the Location column is a text, the chart counts for each
  label the pieces equal to it that the texts of all records split into at the
  separator, a comma and a blank: every piece of a record is one count of its own. Labels
  without a comma that were joined by the separator split into the same labels again,
  so a record that lists k labels gives one count to each of the k. The text of the
  left side and the right side joined splits into the two.
\<close>

theorem location_chart_explodes:
  "(column data (ascii ''Location'') = Inr (map CStr texts) \<longrightarrow>
      (\<exists>counts. location_chart data = Chart counts \<and>
         (\<forall>l. counts l =
            (if sum_list (map (\<lambda>s. count_list (split_from comma_blank [] s) l) texts) = 0 then None
             else Some (sum_list (map (\<lambda>s. count_list (split_from comma_blank [] s) l) texts)))))) \<and>
   (labels \<noteq> [] \<and> (\<forall>l \<in> set labels. 44 \<notin> set l) \<longrightarrow>
      split_from comma_blank [] (py_join comma_blank labels) = labels) \<and>
   split_from comma_blank [] ([24038, 20391] @ comma_blank @ [21491, 20391])
     = [[24038, 20391], [21491, 20391]]"
proof (intro conjI)
  show "column data (ascii ''Location'') = Inr (map CStr texts) \<longrightarrow>
      (\<exists>counts. location_chart data = Chart counts \<and>
         (\<forall>l. counts l =
            (if sum_list (map (\<lambda>s. count_list (split_from comma_blank [] s) l) texts) = 0 then None
             else Some (sum_list (map (\<lambda>s. count_list (split_from comma_blank [] s) l) texts)))))"
  proof (rule impI)
    assume a: "column data (ascii ''Location'') = Inr (map CStr texts)"
    let ?counts = "value_counts (map Some (concat (map (split_from comma_blank []) texts)))"
    have "location_chart data = Chart ?counts" using a by (rule location_chart_counts)
    moreover have "\<forall>l. ?counts l =
            (if sum_list (map (\<lambda>s. count_list (split_from comma_blank [] s) l) texts) = 0 then None
             else Some (sum_list (map (\<lambda>s. count_list (split_from comma_blank [] s) l) texts)))"
      by (simp add: value_counts_Some count_list_concat comp_def)
    ultimately show "\<exists>counts. location_chart data = Chart counts \<and>
         (\<forall>l. counts l =
            (if sum_list (map (\<lambda>s. count_list (split_from comma_blank [] s) l) texts) = 0 then None
             else Some (sum_list (map (\<lambda>s. count_list (split_from comma_blank [] s) l) texts))))"
      by (intro exI [of _ ?counts] conjI)
  qed
  show "labels \<noteq> [] \<and> (\<forall>l \<in> set labels. 44 \<notin> set l) \<longrightarrow>
      split_from comma_blank [] (py_join comma_blank labels) = labels"
  proof (rule impI)
    assume "labels \<noteq> [] \<and> (\<forall>l \<in> set labels. 44 \<notin> set l)"
    then show "split_from comma_blank [] (py_join comma_blank labels) = labels"
      using split_join [of comma_blank 44 "[32]" labels "[]"] by (simp add: comma_blank_def)
  qed
  show "split_from comma_blank [] ([24038, 20391] @ comma_blank @ [21491, 20391])
     = [[24038, 20391], [21491, 20391]]"
    by (simp add: comma_blank_def)
qed


text \<open>
  Two records, one listing the left and the right side and one the right side alone:
  the left side is counted once, the right side twice, the joined text never.
\<close>

theorem location_chart_explodes_witness:
  "column places_frame (ascii ''Location'') =
     Inr (map CStr [[24038, 20391] @ comma_blank @ [21491, 20391], [21491, 20391]]) \<and>
   (\<exists>counts. location_chart places_frame = Chart counts \<and>
      counts [24038, 20391] = Some 1 \<and> counts [21491, 20391] = Some 2 \<and>
      counts ([24038, 20391] @ comma_blank @ [21491, 20391]) = None) \<and>
   [[24038, 20391], [21491, 20391 :: nat]] \<noteq> [] \<and>
   (\<forall>l \<in> set [[24038, 20391], [21491, 20391 :: nat]]. 44 \<notin> set l) \<and>
   split_from comma_blank [] (py_join comma_blank [[24038, 20391], [21491, 20391]])
     = [[24038, 20391], [21491, 20391 :: nat]]"
proof -
  let ?texts = "[[24038, 20391] @ comma_blank @ [21491, 20391], [21491, 20391]]"
  let ?labels = "[[24038, 20391], [21491, 20391 :: nat]]"
  note t = location_chart_explodes [of places_frame ?texts ?labels]
  have h2: "?labels \<noteq> [] \<and> (\<forall>l \<in> set ?labels. 44 \<notin> set l)" by simp
  note t1 = t [THEN conjunct1, THEN mp, OF places_column]
  note t2 = t [THEN conjunct2, THEN conjunct1, THEN mp, OF h2]
  note s = t [THEN conjunct2, THEN conjunct2]
  have s2: "split_from comma_blank [] [21491, 20391] = [[21491, 20391]]"
    by (simp add: comma_blank_def)
  from t1 obtain counts where c: "location_chart places_frame = Chart counts"
    and n: "\<And>l. counts l =
            (if sum_list (map (\<lambda>s. count_list (split_from comma_blank [] s) l) ?texts) = 0 then None
             else Some (sum_list (map (\<lambda>s. count_list (split_from comma_blank [] s) l) ?texts)))"
    by (elim exE conjE) simp
  have 1: "counts [24038, 20391] = Some 1"
    unfolding n using s s2 by (simp add: comma_blank_def)
  have 2: "counts [21491, 20391] = Some 2"
    unfolding n using s s2 by (simp add: comma_blank_def)
  have 3: "counts ([24038, 20391] @ comma_blank @ [21491, 20391]) = None"
    unfolding n using s s2 by (simp add: comma_blank_def)
  show ?thesis
  proof (intro conjI exI)
    show "column places_frame (ascii ''Location'') = Inr (map CStr ?texts)"
      by (rule places_column)
    show "location_chart places_frame = Chart counts" by (rule c)
    show "counts [24038, 20391] = Some 1" by (rule 1)
    show "counts [21491, 20391] = Some 2" by (rule 2)
    show "counts ([24038, 20391] @ comma_blank @ [21491, 20391]) = None" by (rule 3)
    show "?labels \<noteq> []" by simp
    show "\<forall>l \<in> set ?labels. 44 \<notin> set l" by simp
    show "split_from comma_blank [] (py_join comma_blank ?labels) = ?labels" by (rule t2)
  qed
qed


end
